theory Spec2Isabelle
  imports Main
begin

section \<open>Python values used by the adapters\<close>

text \<open>
  The exceptions that the modelled code can raise. A function that can raise returns
  \<open>py_error + 'a\<close>, with \<open>Inl\<close> for the exception.
\<close>

datatype py_error =
    IndexError
  | ZeroDivisionError
  | AttributeError string
  | TypeError string
  | ValueError string
  | RuntimeError string
  | NotImplementedError string
  | AssertionError string

text \<open>
  Python's slice \<open>xs[a:b]\<close> on a sequence of length \<open>n\<close>: a negative bound counts from
  the end, and every bound is clipped into \<open>0..n\<close>. A slice never raises.
\<close>

definition clip_bound :: "nat \<Rightarrow> int \<Rightarrow> nat" where
  "clip_bound n a = (if a < 0 then nat (max (int n + a) 0) else min (nat a) n)"

definition py_slice :: "'a list \<Rightarrow> int \<Rightarrow> int \<Rightarrow> 'a list" where
  "py_slice xs a b =
     (let lo = clip_bound (length xs) a; hi = clip_bound (length xs) b
      in take (hi - lo) (drop lo xs))"

text \<open>The open slice \<open>xs[a:]\<close>.\<close>

definition py_slice_from :: "'a list \<Rightarrow> int \<Rightarrow> 'a list" where
  "py_slice_from xs a = drop (clip_bound (length xs) a) xs"

text \<open>Integer indexing \<open>xs[i]\<close>: a negative index counts from the end, out of range raises.\<close>

definition py_index :: "'a list \<Rightarrow> int \<Rightarrow> py_error + 'a" where
  "py_index xs i =
     (if 0 \<le> i \<and> i < int (length xs) then Inr (xs ! nat i)
      else if i < 0 \<and> - int (length xs) \<le> i then Inr (xs ! nat (int (length xs) + i))
      else Inl IndexError)"

section \<open>The panel array\<close>

text \<open>
  A dense three-dimensional array \<open>(instance, time, variable)\<close>: its shape and its
  entries, instance by instance, row by row. The shape is stored, as numpy stores it:
  an array with no instance still has a time length.
\<close>

record 'a ndarray3 =
  shape :: "nat \<times> nat \<times> nat"
  entries :: "'a list list list"

definition rectangular :: "'a ndarray3 \<Rightarrow> bool" where
  "rectangular y =
     (case shape y of (num, len, vars) \<Rightarrow>
        length (entries y) = num \<and>
        list_all (\<lambda>inst. length inst = len \<and> list_all (\<lambda>row. length row = vars) inst)
          (entries y))"

section \<open>PyTorchDataset: the windowed dataset\<close>

record 'a PyTorchDataset =
  ds_y :: "'a ndarray3"
  ds_num :: nat
  ds_len :: nat
  ds_seq_len :: int
  ds_pred_len :: int
  ds_len_single :: int

text \<open>\<open>PyTorchDataset.__init__\<close>.\<close>

definition PyTorchDataset_init :: "'a ndarray3 \<Rightarrow> int \<Rightarrow> int \<Rightarrow> 'a PyTorchDataset" where
  "PyTorchDataset_init y seq_len pred_len =
     (case shape y of (num, len, vars) \<Rightarrow>
        \<lparr> ds_y = y, ds_num = num, ds_len = len,
          ds_seq_len = seq_len, ds_pred_len = pred_len,
          ds_len_single = int len - seq_len - pred_len + 1 \<rparr>)"

text \<open>\<open>PyTorchDataset.__len__\<close>.\<close>

definition PyTorchDataset_len :: "'a PyTorchDataset \<Rightarrow> int" where
  "PyTorchDataset_len ds = int (ds_num ds) * max (ds_len_single ds) 0"

text \<open>
  \<open>PyTorchDataset.__getitem__\<close>. Floor division and modulo by zero raise; the instance
  index \<open>n\<close> is bounds-checked by the array; the two time slices follow Python's slice
  rules. The conversion to a float tensor copies the values and is the identity here.
\<close>

definition PyTorchDataset_getitem ::
  "'a PyTorchDataset \<Rightarrow> int \<Rightarrow> py_error + ('a list list \<times> 'a list list)" where
  "PyTorchDataset_getitem ds i =
     (if ds_len_single ds = 0 then Inl ZeroDivisionError
      else
        let n = i div ds_len_single ds;
            m = i mod ds_len_single ds
        in case py_index (entries (ds_y ds)) n of
             Inl e \<Rightarrow> Inl e
           | Inr inst \<Rightarrow>
               Inr (py_slice inst m (m + ds_seq_len ds),
                    py_slice inst (m + ds_seq_len ds) (m + ds_seq_len ds + ds_pred_len ds)))"

section \<open>Tensors and the datasets over a single series\<close>

text \<open>
  A tensor of one dimension, or of two: \<open>Tensor2 c rows\<close> has shape
  \<open>(length rows, c)\<close>, so that a tensor with no row still has its column count.
  \<open>tensor([])\<close> is \<open>Tensor1 []\<close>, of shape \<open>(0,)\<close>.
\<close>

datatype 'a tensor = Tensor1 "'a list" | Tensor2 nat "'a list list"

text \<open>A two-dimensional numpy array (the \<open>values\<close> of a frame): column count and rows.\<close>

type_synonym 'a ndarray2 = "nat \<times> 'a list list"

text \<open>
  \<open>torch.cat([a, b])\<close>, along the default dimension 0. The library skips a
  one-dimensional empty tensor of shape \<open>(0,)\<close>; otherwise the tensors must have the
  same number of dimensions and agree in every dimension but the first.
\<close>

fun torch_cat :: "'a tensor \<Rightarrow> 'a tensor \<Rightarrow> py_error + 'a tensor" where
  "torch_cat (Tensor1 []) t = Inr t"
| "torch_cat t (Tensor1 []) = Inr t"
| "torch_cat (Tensor1 xs) (Tensor1 ys) = Inr (Tensor1 (xs @ ys))"
| "torch_cat (Tensor2 c r) (Tensor2 c' r') =
     (if c = c' then Inr (Tensor2 c (r @ r'))
      else Inl (RuntimeError ''Sizes of tensors must match except in dimension 0''))"
| "torch_cat (Tensor1 xs) (Tensor2 c r) =
     Inl (RuntimeError ''Tensors must have same number of dimensions'')"
| "torch_cat (Tensor2 c r) (Tensor1 ys) =
     Inl (RuntimeError ''Tensors must have same number of dimensions'')"

text \<open>
  Concatenation along the variable axis (dimension 1), as the specification words the
  exogenous block's contribution: the rows are joined pairwise. It is what the item is
  compared with; the dataset does not call it.
\<close>

fun cat_variable_axis :: "'a tensor \<Rightarrow> 'a tensor \<Rightarrow> py_error + 'a tensor" where
  "cat_variable_axis (Tensor2 c r) (Tensor2 c' r') =
     (if length r = length r' then Inr (Tensor2 (c + c') (map2 (@) r r'))
      else Inl (RuntimeError ''Sizes of tensors must match except in dimension 1''))"
| "cat_variable_axis t t' = Inl (RuntimeError ''Tensors must have same number of dimensions'')"

text \<open>
  \<open>PyTorchTrainDataset\<close>. The horizon \<open>fh\<close> defaults to \<open>None\<close>; adding \<open>None\<close> to an
  integer raises a \<open>TypeError\<close>.
\<close>

record 'a PyTorchTrainDataset =
  td_y :: "'a ndarray2"
  td_X :: "'a ndarray2 option"
  td_seq_len :: int
  td_fh :: "int option"

definition PyTorchTrainDataset_init ::
  "'a ndarray2 \<Rightarrow> int \<Rightarrow> int option \<Rightarrow> 'a ndarray2 option \<Rightarrow> 'a PyTorchTrainDataset" where
  "PyTorchTrainDataset_init y seq_len fh X =
     \<lparr> td_y = y, td_X = X, td_seq_len = seq_len, td_fh = fh \<rparr>"

definition add_fh :: "int \<Rightarrow> int option \<Rightarrow> py_error + int" where
  "add_fh a fh =
     (case fh of
        None \<Rightarrow> Inl (TypeError ''unsupported operand type(s) for +: int and NoneType'')
      | Some h \<Rightarrow> Inr (a + h))"

definition PyTorchTrainDataset_len :: "'a PyTorchTrainDataset \<Rightarrow> py_error + int" where
  "PyTorchTrainDataset_len ds =
     (case td_fh ds of
        None \<Rightarrow> Inl (TypeError ''unsupported operand type(s) for -: int and NoneType'')
      | Some h \<Rightarrow> Inr (max (int (length (snd (td_y ds))) - td_seq_len ds - h + 1) 0))"

definition PyTorchTrainDataset_getitem ::
  "'a PyTorchTrainDataset \<Rightarrow> int \<Rightarrow> py_error + ('a tensor \<times> 'a tensor)" where
  "PyTorchTrainDataset_getitem ds i =
     (let hist_y = Tensor2 (fst (td_y ds)) (py_slice (snd (td_y ds)) i (i + td_seq_len ds))
      in case (case td_X ds of
                 Some X \<Rightarrow>
                   (case add_fh (i + td_seq_len ds) (td_fh ds) of
                      Inl e \<Rightarrow> Inl e
                    | Inr hi \<Rightarrow> Inr (Tensor2 (fst X) (py_slice (snd X) (i + td_seq_len ds) hi)))
               | None \<Rightarrow> Inr (Tensor1 [])) of
           Inl e \<Rightarrow> Inl e
         | Inr exog_data \<Rightarrow>
             (case torch_cat hist_y exog_data of
                Inl e \<Rightarrow> Inl e
              | Inr input \<Rightarrow>
                  (case add_fh (i + td_seq_len ds) (td_fh ds) of
                     Inl e \<Rightarrow> Inl e
                   | Inr hi \<Rightarrow>
                       Inr (input,
                            Tensor2 (fst (td_y ds))
                              (py_slice (snd (td_y ds)) (i + td_seq_len ds) hi)))))"

text \<open>
  \<open>PyTorchPredDataset\<close>. The field \<open>pd_fh\<close> stands for the instance attribute \<open>fh\<close>:
  \<open>None\<close> when the attribute does not exist on the object, in which case reading it
  raises an \<open>AttributeError\<close>. The constructor does not assign it.
\<close>

record 'a PyTorchPredDataset =
  pd_y :: "'a ndarray2"
  pd_seq_len :: int
  pd_X :: "'a ndarray2 option"
  pd_fh :: "int option"

definition PyTorchPredDataset_init ::
  "'a ndarray2 \<Rightarrow> int \<Rightarrow> 'a ndarray2 option \<Rightarrow> 'a PyTorchPredDataset" where
  "PyTorchPredDataset_init y seq_len X =
     \<lparr> pd_y = y, pd_seq_len = seq_len, pd_X = X, pd_fh = None \<rparr>"

definition PyTorchPredDataset_len :: "'a PyTorchPredDataset \<Rightarrow> int" where
  "PyTorchPredDataset_len ds = 1"

definition PyTorchPredDataset_getitem ::
  "'a PyTorchPredDataset \<Rightarrow> int \<Rightarrow> py_error + ('a tensor \<times> 'a tensor)" where
  "PyTorchPredDataset_getitem ds i =
     (let hist_y = Tensor2 (fst (pd_y ds)) (py_slice (snd (pd_y ds)) i (i + pd_seq_len ds))
      in case (case pd_X ds of
                 Some X \<Rightarrow>
                   (case pd_fh ds of
                      None \<Rightarrow>
                        Inl (AttributeError
                               ''PyTorchPredDataset object has no attribute fh'')
                    | Some h \<Rightarrow>
                        Inr (Tensor2 (fst X)
                               (py_slice (snd X) (i + pd_seq_len ds) (i + pd_seq_len ds + h))))
               | None \<Rightarrow> Inr (Tensor1 [])) of
           Inl e \<Rightarrow> Inl e
         | Inr exog_data \<Rightarrow>
             (case torch_cat hist_y exog_data of
                Inl e \<Rightarrow> Inl e
              | Inr input \<Rightarrow>
                  Inr (input,
                       Tensor2 (fst (pd_y ds))
                         (py_slice (snd (pd_y ds)) (i + pd_seq_len ds) (i + pd_seq_len ds)))))"

text \<open>
  The dataset that \<open>build_pytorch_pred_dataloader\<close> builds when no custom dataset is
  configured: over the rows \<open>y[-seq_len:]\<close> of the series, with no exogenous data.
\<close>

definition pred_dataset_of :: "'a ndarray2 \<Rightarrow> int \<Rightarrow> 'a PyTorchPredDataset" where
  "pred_dataset_of y seq_len =
     PyTorchPredDataset_init (fst y, py_slice_from (snd y) (- seq_len)) seq_len None"

section \<open>Optimizer instantiation\<close>

text \<open>
  The registry \<open>self.optimizers\<close> is a dictionary from names to constructors, given by
  the concrete estimator; it is an association list here, in the dictionary's key
  order. A constructor takes the network's parameters, the learning rate and the
  keyword arguments, and returns the optimizer or raises. The text of \<open>dict.keys()\<close> in
  the message lists the keys, each as Python's \<open>repr\<close> prints it; \<open>repr\<close> is a built-in
  of the language and a parameter \<open>key_text\<close> of the message.
\<close>

fun comma_separated :: "string list \<Rightarrow> string" where
  "comma_separated [] = []"
| "comma_separated [k] = k"
| "comma_separated (k # ks) = k @ '', '' @ comma_separated ks"

definition dict_keys_text :: "(string \<Rightarrow> string) \<Rightarrow> string list \<Rightarrow> string" where
  "dict_keys_text key_text ks = ''dict_keys(['' @ comma_separated (map key_text ks) @ ''])''"

definition optimizer_message :: "(string \<Rightarrow> string) \<Rightarrow> string list \<Rightarrow> string" where
  "optimizer_message key_text ks =
     ''Please pass one of '' @ dict_keys_text key_text ks @ '' for '' @
     [CHR 0x60] @ ''optimizer'' @ [CHR 0x60] @ ''.''"

text \<open>
  \<open>repr\<close> on a string of ASCII characters: the string between apostrophes, or between
  double quotes when it holds an apostrophe and no double quote; the chosen quote and
  the backslash are escaped with a backslash, tab, line feed and carriage return are
  written as a backslash and the letter t, n or r, and any other control character as
  a backslash, the letter x and two hexadecimal digits. Bytes above 127 are left as
  they are: they stand for the encoding of printable characters.
\<close>

definition hex_digit :: "nat \<Rightarrow> char" where
  "hex_digit n = ''0123456789abcdef'' ! (n mod 16)"

definition repr_char :: "char \<Rightarrow> char \<Rightarrow> string" where
  "repr_char q c =
     (if c = q \<or> c = CHR 0x5C then [CHR 0x5C, c]
      else if c = CHR 0x09 then [CHR 0x5C, CHR ''t'']
      else if c = CHR 0x0A then [CHR 0x5C, CHR ''n'']
      else if c = CHR 0x0D then [CHR 0x5C, CHR ''r'']
      else if (of_char c :: nat) < 32 \<or> (of_char c :: nat) = 127
      then [CHR 0x5C, CHR ''x'', hex_digit (of_char c div 16), hex_digit (of_char c mod 16)]
      else [c])"

definition py_repr :: "string \<Rightarrow> string" where
  "py_repr k =
     (let q = (if CHR 0x27 \<in> set k \<and> CHR 0x22 \<notin> set k then CHR 0x22 else CHR 0x27)
      in [q] @ concat (map (repr_char q) k) @ [q])"

text \<open>
  The call \<open>ctor(params, lr=lr, **kwargs)\<close>. A dictionary that itself holds the key
  \<open>lr\<close> gives the keyword twice, and the call raises a \<open>TypeError\<close> before the
  constructor runs; the message names the constructor first, which is left out here.
  Otherwise the result is the constructor's.
\<close>

definition duplicate_lr_message :: string where
  "duplicate_lr_message =
     ''got multiple values for keyword argument '' @ [CHR 0x27] @ ''lr'' @ [CHR 0x27]"

definition call_with_lr ::
  "('p \<Rightarrow> 'r \<Rightarrow> (string \<times> 'v) list \<Rightarrow> py_error + 'o) \<Rightarrow>
   'p \<Rightarrow> 'r \<Rightarrow> (string \<times> 'v) list \<Rightarrow> py_error + 'o" where
  "call_with_lr ctor params lr kwargs =
     (if ''lr'' \<in> fst ` set kwargs then Inl (TypeError duplicate_lr_message)
      else ctor params lr kwargs)"

text \<open>
  \<open>_instantiate_optimizer\<close>, the same in the forecasting and in the classification
  adapter. A name is tested for truth first: \<open>None\<close> and the empty string are false.
  So are \<open>None\<close> and the empty dictionary of keyword arguments.
\<close>

definition instantiate_optimizer ::
  "(string \<Rightarrow> string) \<Rightarrow>
   (string \<times> ('p \<Rightarrow> 'r \<Rightarrow> (string \<times> 'v) list \<Rightarrow> py_error + 'o)) list \<Rightarrow>
   ('p \<Rightarrow> 'r \<Rightarrow> (string \<times> 'v) list \<Rightarrow> py_error + 'o) \<Rightarrow>
   'p \<Rightarrow> 'r \<Rightarrow> string option \<Rightarrow> (string \<times> 'v) list option \<Rightarrow> py_error + 'o" where
  "instantiate_optimizer key_text optimizers Adam params lr optimizer optimizer_kwargs =
     (if optimizer \<noteq> None \<and> optimizer \<noteq> Some [] then
        (case map_of optimizers (the optimizer) of
           Some ctor \<Rightarrow>
             (if optimizer_kwargs \<noteq> None \<and> optimizer_kwargs \<noteq> Some [] then
                call_with_lr ctor params lr (the optimizer_kwargs)
              else ctor params lr [])
         | None \<Rightarrow> Inl (TypeError (optimizer_message key_text (map fst optimizers))))
      else Adam params lr [])"

text \<open>
  \<open>_instantiate_criterion\<close> follows the same pattern, with the default loss; the
  keyword arguments are the only arguments of a loss constructor.
\<close>

definition criterion_message :: "(string \<Rightarrow> string) \<Rightarrow> string list \<Rightarrow> string" where
  "criterion_message key_text ks =
     ''Please pass one of '' @ dict_keys_text key_text ks @ '' for '' @
     [CHR 0x60] @ ''criterion'' @ [CHR 0x60] @ ''.''"

definition instantiate_criterion ::
  "(string \<Rightarrow> string) \<Rightarrow> (string \<times> ((string \<times> 'v) list \<Rightarrow> py_error + 'c)) list \<Rightarrow>
   'c \<Rightarrow> string option \<Rightarrow> (string \<times> 'v) list option \<Rightarrow> py_error + 'c" where
  "instantiate_criterion key_text criterions MSELoss criterion criterion_kwargs =
     (if criterion \<noteq> None \<and> criterion \<noteq> Some [] then
        (case map_of criterions (the criterion) of
           Some ctor \<Rightarrow>
             (if criterion_kwargs \<noteq> None \<and> criterion_kwargs \<noteq> Some [] then
                ctor (the criterion_kwargs)
              else ctor [])
         | None \<Rightarrow> Inl (TypeError (criterion_message key_text (map fst criterions))))
      else Inr MSELoss)"

section \<open>Frames and their conversion to the panel array\<close>

text \<open>
  A frame's row index is flat (one timestamp per row) or has an instance identifier
  and a timestamp per row. A hierarchical index has several outer levels; its
  identifier is then the tuple of them.
\<close>

datatype ('i, 't) pd_index = Index "'t list" | MultiIndex "('i \<times> 't) list"

record ('i, 't, 'a) DataFrame =
  df_index :: "('i, 't) pd_index"
  df_index_names :: "string list"
  df_columns :: "string list"
  df_values :: "'a list list"

text \<open>\<open>numpy.unique\<close>: the distinct values, in ascending order.\<close>

definition np_unique :: "'i::linorder list \<Rightarrow> 'i list" where
  "np_unique xs = sort (remdups xs)"

text \<open>\<open>numpy.repeat\<close>: every element \<open>k\<close> times in a row; \<open>list * k\<close>: the list \<open>k\<close> times.\<close>

definition np_repeat :: "'x list \<Rightarrow> nat \<Rightarrow> 'x list" where
  "np_repeat xs k = concat (map (replicate k) xs)"

definition list_times :: "'x list \<Rightarrow> nat \<Rightarrow> 'x list" where
  "list_times xs k = concat (replicate k xs)"

text \<open>
  \<open>_same_index\<close>: the time index of every instance, grouped by instance in ascending
  order of the identifier; all must equal the first. Returns the first and its length.
\<close>

definition same_index :: "('i::linorder \<times> 't) list \<Rightarrow> py_error + ('t list \<times> nat)" where
  "same_index rows =
     (case map (\<lambda>k. map snd (filter (\<lambda>r. fst r = k) rows)) (np_unique (map fst rows)) of
        [] \<Rightarrow> Inl IndexError
      | g # gs \<Rightarrow>
          if list_all (\<lambda>x. x = g) gs then Inr (g, length g)
          else Inl (AssertionError ''All series must has the same index''))"

text \<open>Consecutive pieces of \<open>k\<close> elements, the last one possibly shorter.\<close>

function chunks :: "nat \<Rightarrow> 'x list \<Rightarrow> 'x list list" where
  "chunks k xs = (if k = 0 \<or> xs = [] then [] else take k xs # chunks k (drop k xs))"
  by pat_completeness auto
termination
  by (relation "measure (\<lambda>(k, xs). length xs)") auto

declare chunks.simps [simp del]

text \<open>
  \<open>_frame2numpy\<close>: the rows of the frame, in the frame's own order, reshaped to
  \<open>(-1, length, columns)\<close>. Reshaping an array without columns cannot infer the first
  dimension and raises.
\<close>

definition frame2numpy :: "('i::linorder, 't, 'a) DataFrame \<Rightarrow> py_error + 'a ndarray3" where
  "frame2numpy data =
     (case df_index data of
        Index ts \<Rightarrow> Inl (AttributeError ''Index object has no attribute levels'')
      | MultiIndex rows \<Rightarrow>
          (case same_index rows of
             Inl e \<Rightarrow> Inl e
           | Inr (idx, len) \<Rightarrow>
               if length (df_columns data) = 0
               then Inl (ValueError ''cannot reshape array of size 0'')
               else Inr \<lparr> shape = (length (df_values data) div len, len,
                                    length (df_columns data)),
                          entries = chunks len (df_values data) \<rparr>))"

text \<open>\<open>_prepare_data\<close>.\<close>

definition prepare_data :: "('i::linorder, 't, 'a) DataFrame \<Rightarrow> py_error + 'a ndarray3" where
  "prepare_data y =
     (case df_index y of
        Index ts \<Rightarrow>
          Inr \<lparr> shape = (1, length (df_values y), length (df_columns y)),
                entries = [df_values y] \<rparr>
      | MultiIndex rows \<Rightarrow> frame2numpy y)"

text \<open>The slice \<open>y[:, -seq_len:, :]\<close> of the panel array.\<close>

definition last_steps :: "'a ndarray3 \<Rightarrow> int \<Rightarrow> 'a ndarray3" where
  "last_steps y seq_len =
     (case shape y of (num, len, vars) \<Rightarrow>
        \<lparr> shape = (num, len - clip_bound len (- seq_len), vars),
          entries = map (\<lambda>inst. py_slice_from inst (- seq_len)) (entries y) \<rparr>)"

section \<open>Data loaders\<close>

text \<open>
  A map-style dataset, as the loader sees it: \<open>__len__\<close> and \<open>__getitem__\<close>.
\<close>

record 'x map_dataset =
  md_len :: int
  md_getitem :: "int \<Rightarrow> py_error + 'x"

definition as_map_dataset ::
  "'a PyTorchDataset \<Rightarrow> ('a list list \<times> 'a list list) map_dataset" where
  "as_map_dataset ds =
     \<lparr> md_len = PyTorchDataset_len ds, md_getitem = PyTorchDataset_getitem ds \<rparr>"

text \<open>
  The loader is the library's \<open>DataLoader(dataset, batch_size, shuffle)\<close>. Its
  constructor builds the sampler first: a shuffling loader draws from a random
  sampler, which refuses a dataset without items. It then builds the batch sampler,
  which refuses a batch size of zero.
\<close>

record 'x DataLoader =
  dl_dataset :: "'x map_dataset"
  dl_batch_size :: nat
  dl_shuffle :: bool

definition DataLoader_init ::
  "'x map_dataset \<Rightarrow> nat \<Rightarrow> bool \<Rightarrow> py_error + 'x DataLoader" where
  "DataLoader_init dataset batch_size shuffle =
     (if shuffle \<and> md_len dataset \<le> 0
      then Inl (ValueError
             ''num_samples should be a positive integer value, but got num_samples=0'')
      else if batch_size = 0
      then Inl (ValueError
             ''batch_size should be a positive integer value, but got batch_size=0'')
      else Inr \<lparr> dl_dataset = dataset, dl_batch_size = batch_size, dl_shuffle = shuffle \<rparr>)"

text \<open>
  One pass over a loader visits the indices \<open>0..len-1\<close> in ascending order, or, when
  shuffling, in the order \<open>drawn\<close> by the sampler for this pass (a permutation of these
  indices), cut into batches of \<open>batch_size\<close> indices.
\<close>

definition index_batches :: "'x DataLoader \<Rightarrow> nat list \<Rightarrow> nat list list" where
  "index_batches dl drawn =
     chunks (dl_batch_size dl)
       (if dl_shuffle dl then drawn else [0 ..< nat (md_len (dl_dataset dl))])"

text \<open>Fetching the items of one batch; the first item that raises ends the fetch.\<close>

fun fetch :: "'x map_dataset \<Rightarrow> nat list \<Rightarrow> py_error + 'x list" where
  "fetch ds [] = Inr []"
| "fetch ds (i # is) =
     (case md_getitem ds (int i) of
        Inl e \<Rightarrow> Inl e
      | Inr x \<Rightarrow> (case fetch ds is of Inl e \<Rightarrow> Inl e | Inr xs \<Rightarrow> Inr (x # xs)))"

section \<open>The estimator\<close>

text \<open>
  The estimator's hyper-parameters together with what the concrete estimator and the
  library supply: the registries, the default optimizer and loss, the network builder
  (\<open>_build_network\<close>), the network's \<open>seq_len\<close> and \<open>pred_len\<close>, its forward pass in
  evaluation mode (which maps every window of a batch to the forecast for that
  window), one optimisation step on a batch (forward pass, loss, \<open>zero_grad\<close>,
  \<open>backward\<close>, \<open>step\<close>), the custom dataset if any (with its \<open>build_dataset\<close> method
  if it has one), and the conversion of a relative horizon step to an absolute
  timestamp for the fitted cutoff and frequency.
\<close>

record ('n, 'o, 'c, 'v, 'a, 't) estimator =
  num_epochs :: nat
  batch_size :: nat
  optimizer :: "string option"
  optimizer_kwargs :: "(string \<times> 'v) list option"
  criterion :: "string option"
  criterion_kwargs :: "(string \<times> 'v) list option"
  lr :: 'v
  optimizers :: "(string \<times> ('n \<Rightarrow> 'v \<Rightarrow> (string \<times> 'v) list \<Rightarrow> py_error + 'o)) list"
  criterions :: "(string \<times> ((string \<times> 'v) list \<Rightarrow> py_error + 'c)) list"
  Adam :: "'n \<Rightarrow> 'v \<Rightarrow> (string \<times> 'v) list \<Rightarrow> py_error + 'o"
  MSELoss :: 'c
  build_network :: "int \<Rightarrow> 'n"
  seq_len :: "'n \<Rightarrow> int"
  pred_len :: "'n \<Rightarrow> int"
  forward :: "'n \<Rightarrow> 'a list list \<Rightarrow> 'a list list"
  train_step ::
    "'c \<Rightarrow> 'o \<times> 'n \<Rightarrow> 'a list list list \<times> 'a list list list \<Rightarrow> 'o \<times> 'n"
  custom_dataset_train ::
    "('a ndarray3 \<Rightarrow> ('a list list \<times> 'a list list) map_dataset) option option"
  to_absolute :: "int \<Rightarrow> 't"

text \<open>
  \<open>build_dataloader\<close>, for the network of the estimator. The loader shuffles for
  either split.
\<close>

definition build_dataloader ::
  "('n, 'o, 'c, 'v, 'a, 't) estimator \<Rightarrow> 'n \<Rightarrow> ('i::linorder, 't, 'a) DataFrame \<Rightarrow>
   string \<Rightarrow> py_error + ('a list list \<times> 'a list list) DataLoader" where
  "build_dataloader self network y split =
     (case prepare_data y of
        Inl e \<Rightarrow> Inl e
      | Inr y0 \<Rightarrow>
          let y1 = (if split = ''test'' then last_steps y0 (seq_len self network) else y0);
              p = (if split = ''test'' then 0 else pred_len self network)
          in case (case custom_dataset_train self of
                     Some (Some build_dataset) \<Rightarrow> Inr (build_dataset y1)
                   | Some None \<Rightarrow>
                       Inl (NotImplementedError
                              ''Custom Dataset build_dataset method is not available.'')
                   | None \<Rightarrow>
                       Inr (as_map_dataset
                              (PyTorchDataset_init y1 (seq_len self network) p))) of
               Inl e \<Rightarrow> Inl e
             | Inr dataset \<Rightarrow> DataLoader_init dataset (batch_size self) True)"

text \<open>
  \<open>_run_epoch\<close>: one pass over the loader, an optimisation step per batch. The default
  collation stacks the histories and the futures of a batch.
\<close>

fun run_batches ::
  "('n, 'o, 'c, 'v, 'a, 't) estimator \<Rightarrow> 'c \<Rightarrow>
   ('a list list \<times> 'a list list) map_dataset \<Rightarrow> 'o \<times> 'n \<Rightarrow> nat list list \<Rightarrow>
   py_error + ('o \<times> 'n)" where
  "run_batches self crit ds st [] = Inr st"
| "run_batches self crit ds st (b # bs) =
     (case fetch ds b of
        Inl e \<Rightarrow> Inl e
      | Inr items \<Rightarrow>
          run_batches self crit ds
            (train_step self crit st (map fst items, map snd items)) bs)"

definition run_epoch ::
  "('n, 'o, 'c, 'v, 'a, 't) estimator \<Rightarrow> 'c \<Rightarrow>
   ('a list list \<times> 'a list list) DataLoader \<Rightarrow> 'o \<times> 'n \<Rightarrow> nat list \<Rightarrow>
   py_error + ('o \<times> 'n)" where
  "run_epoch self crit dataloader st drawn =
     run_batches self crit (dl_dataset dataloader) st (index_batches dataloader drawn)"

fun run_epochs ::
  "('n, 'o, 'c, 'v, 'a, 't) estimator \<Rightarrow> 'c \<Rightarrow>
   ('a list list \<times> 'a list list) DataLoader \<Rightarrow> 'o \<times> 'n \<Rightarrow> nat list list \<Rightarrow>
   py_error + ('o \<times> 'n)" where
  "run_epochs self crit dataloader st [] = Inr st"
| "run_epochs self crit dataloader st (drawn # rest) =
     (case run_epoch self crit dataloader st drawn of
        Inl e \<Rightarrow> Inl e
      | Inr st' \<Rightarrow> run_epochs self crit dataloader st' rest)"

text \<open>
  \<open>_fit\<close>. The horizon is given as its relative steps; \<open>drawn e\<close> is the order drawn by
  the sampler in epoch \<open>e\<close>. The result is the optimizer and the network after the last
  epoch.
\<close>

definition fit ::
  "('n, 'o, 'c, 'v, 'a, 't) estimator \<Rightarrow> ('i::linorder, 't, 'a) DataFrame \<Rightarrow>
   int list \<Rightarrow> (nat \<Rightarrow> nat list) \<Rightarrow> py_error + ('o \<times> 'n)" where
  "fit self y fh drawn =
     (case py_index fh (- 1) of
        Inl e \<Rightarrow> Inl e
      | Inr h \<Rightarrow>
          let network = build_network self h
          in case instantiate_criterion py_repr (criterions self) (MSELoss self)
                    (criterion self) (criterion_kwargs self) of
               Inl e \<Rightarrow> Inl e
             | Inr crit \<Rightarrow>
                 (case instantiate_optimizer py_repr (optimizers self) (Adam self) network
                         (lr self) (optimizer self) (optimizer_kwargs self) of
                    Inl e \<Rightarrow> Inl e
                  | Inr opt \<Rightarrow>
                      (case build_dataloader self network y ''train'' of
                         Inl e \<Rightarrow> Inl e
                       | Inr dataloader \<Rightarrow>
                           run_epochs self crit dataloader (opt, network)
                             (map drawn [0 ..< num_epochs self]))))"

section \<open>Prediction\<close>

text \<open>
  The forward passes of \<open>_predict\<close>: one per batch of the test loader, on the stacked
  histories; the outputs are concatenated along the batch dimension. Concatenating an
  empty list of tensors raises.
\<close>

fun forward_batches ::
  "('n, 'o, 'c, 'v, 'a, 't) estimator \<Rightarrow> 'n \<Rightarrow>
   ('a list list \<times> 'a list list) map_dataset \<Rightarrow> nat list list \<Rightarrow>
   py_error + 'a list list list list" where
  "forward_batches self network ds [] = Inr []"
| "forward_batches self network ds (b # bs) =
     (case fetch ds b of
        Inl e \<Rightarrow> Inl e
      | Inr items \<Rightarrow>
          (case forward_batches self network ds bs of
             Inl e \<Rightarrow> Inl e
           | Inr outs \<Rightarrow> Inr (map (forward self network) (map fst items) # outs)))"

definition predict_tensor ::
  "('n, 'o, 'c, 'v, 'a, 't) estimator \<Rightarrow> 'n \<Rightarrow> ('i::linorder, 't, 'a) DataFrame \<Rightarrow>
   nat list \<Rightarrow> py_error + 'a list list list" where
  "predict_tensor self network y drawn =
     (case build_dataloader self network y ''test'' of
        Inl e \<Rightarrow> Inl e
      | Inr dataloader \<Rightarrow>
          (case forward_batches self network (dl_dataset dataloader)
                  (index_batches dataloader drawn) of
             Inl e \<Rightarrow> Inl e
           | Inr [] \<Rightarrow> Inl (RuntimeError ''torch.cat(): expected a non-empty list of Tensors'')
           | Inr outs \<Rightarrow> Inr (concat outs)))"

text \<open>
  The row index of the prediction frame, for a prediction tensor with \<open>n\<close> batch rows
  and \<open>h\<close> steps; \<open>to_abs\<close> converts a relative step to an absolute timestamp.
  \<open>MultiIndex.from_arrays\<close> raises when its arrays differ in length.
\<close>

definition horizon_steps :: "(int \<Rightarrow> 't) \<Rightarrow> nat \<Rightarrow> 't list" where
  "horizon_steps to_abs h = map to_abs [1 .. int h]"

definition reconstruct_index ::
  "(int \<Rightarrow> 't) \<Rightarrow> ('i::linorder, 't) pd_index \<Rightarrow> nat \<Rightarrow> nat \<Rightarrow>
   py_error + ('i, 't) pd_index" where
  "reconstruct_index to_abs y_index n h =
     (case y_index of
        MultiIndex rows \<Rightarrow>
          let ins = np_repeat (np_unique (map fst rows)) h;
              idx = list_times (horizon_steps to_abs h) n
          in if length ins = length idx then Inr (MultiIndex (zip ins idx))
             else Inl (ValueError ''all arrays must be same length'')
      | Index ts \<Rightarrow> Inr (Index (horizon_steps to_abs h)))"

text \<open>The last level of an index, and the rows of a frame selected by a boolean mask.\<close>

definition last_level :: "('i, 't) pd_index \<Rightarrow> 't list" where
  "last_level ix = (case ix of Index ts \<Rightarrow> ts | MultiIndex rows \<Rightarrow> map snd rows)"

definition index_length :: "('i, 't) pd_index \<Rightarrow> nat" where
  "index_length ix = length (last_level ix)"

definition select :: "bool list \<Rightarrow> 'x list \<Rightarrow> 'x list" where
  "select keep xs = map snd (filter fst (zip keep xs))"

definition loc_mask ::
  "('i, 't, 'a) DataFrame \<Rightarrow> bool list \<Rightarrow> ('i, 't, 'a) DataFrame" where
  "loc_mask df keep =
     df \<lparr> df_index :=
            (case df_index df of
               Index ts \<Rightarrow> Index (select keep ts)
             | MultiIndex rows \<Rightarrow> MultiIndex (select keep rows)),
          df_values := select keep (df_values df) \<rparr>"

text \<open>
  The horizon filter of \<open>_predict\<close>: the rows whose last index level is among the
  absolute timestamps of the requested horizon.
\<close>

definition filter_horizon ::
  "(int \<Rightarrow> 't) \<Rightarrow> int list \<Rightarrow> ('i, 't, 'a) DataFrame \<Rightarrow> ('i, 't, 'a) DataFrame" where
  "filter_horizon to_abs fh pred =
     (let absolute_horizons = map to_abs fh;
          dateindex = map (\<lambda>x. x \<in> set absolute_horizons) (last_level (df_index pred))
      in loc_mask pred dateindex)"

text \<open>
  \<open>pred.shape[1]\<close>, the number of steps of the prediction tensor. The tensor has a
  batch row whenever the concatenation has not raised, since every batch holds an item.
\<close>

definition steps_of :: "'a list list list \<Rightarrow> nat" where
  "steps_of pred = (case pred of [] \<Rightarrow> 0 | w # ws \<Rightarrow> length w)"

text \<open>
  \<open>_predict\<close>, from the data \<open>_y\<close> it predicts from and the relative steps of the
  requested horizon. The frame constructor raises when the values do not have one row
  per index entry, or not one entry per column.
\<close>

definition predict ::
  "('n, 'o, 'c, 'v, 'a, 't) estimator \<Rightarrow> 'n \<Rightarrow> ('i::linorder, 't, 'a) DataFrame \<Rightarrow>
   int list \<Rightarrow> nat list \<Rightarrow> py_error + ('i, 't, 'a) DataFrame" where
  "predict self network y fh drawn =
     (case predict_tensor self network y drawn of
        Inl e \<Rightarrow> Inl e
      | Inr pred \<Rightarrow>
          (case reconstruct_index (to_absolute self) (df_index y) (length pred)
                  (steps_of pred) of
             Inl e \<Rightarrow> Inl e
           | Inr index \<Rightarrow>
               if length (concat pred) = index_length index
                  \<and> list_all (\<lambda>row. length row = length (df_columns y)) (concat pred)
               then
                 Inr ((filter_horizon (to_absolute self) fh
                         \<lparr> df_index = index, df_index_names = df_index_names y,
                           df_columns = df_columns y, df_values = concat pred \<rparr>)
                      \<lparr> df_index_names := df_index_names y \<rparr>)
               else Inl (ValueError ''Shape of passed values does not match the index'')))"

text \<open>
  The order that a shuffling sampler draws for one pass over \<open>n\<close> items is a
  permutation of the indices \<open>0..n-1\<close>.
\<close>

definition sampler_draw :: "nat \<Rightarrow> nat list \<Rightarrow> bool" where
  "sampler_draw n drawn = (sort drawn = [0 ..< n])"

section \<open>A concrete estimator\<close>

text \<open>
  A small estimator on which the adapter is evaluated: integer data, integer timestamps
  with cutoff 100, a network that is a counter of the optimisation steps taken, has
  the given \<open>seq_len\<close> and \<open>pred_len\<close>, and returns its input windows as its forecast.
  No optimizer, loss or custom dataset is configured.
\<close>

definition example_estimator ::
  "int \<Rightarrow> int \<Rightarrow> (nat, string \<times> int, string, int, int, int) estimator" where
  "example_estimator s p =
     \<lparr> num_epochs = 3, batch_size = 8,
       optimizer = None, optimizer_kwargs = None,
       criterion = None, criterion_kwargs = None,
       lr = 1,
       optimizers = [(''Adam'', \<lambda>n r kw. Inr (''Adam'', r)),
                     (''SGD'', \<lambda>n r kw. Inr (''SGD'', r))],
       criterions = [(''MSE'', \<lambda>kw. Inr ''MSE'')],
       Adam = (\<lambda>n r kw. Inr (''Adam'', r)),
       MSELoss = ''MSE'',
       build_network = (\<lambda>h. 0),
       seq_len = (\<lambda>n. s),
       pred_len = (\<lambda>n. p),
       forward = (\<lambda>n w. w),
       train_step = (\<lambda>c st b. (fst st, Suc (snd st))),
       custom_dataset_train = None,
       to_absolute = (\<lambda>k. 100 + k) \<rparr>"

section \<open>Slices with non-negative bounds\<close>

lemma clip_bound_nonneg: "0 \<le> a \<Longrightarrow> clip_bound n a = min (nat a) n"
  by (simp add: clip_bound_def)

lemma py_slice_inside:
  assumes "0 \<le> a" and "a \<le> b" and "b \<le> int (length xs)"
  shows "py_slice xs a b = take (nat (b - a)) (drop (nat a) xs)"
proof -
  have "nat a \<le> length xs" and "nat b \<le> length xs"
    using assms by linarith+
  then have lo: "clip_bound (length xs) a = nat a"
    and hi: "clip_bound (length xs) b = nat b"
    using assms by (simp_all add: clip_bound_nonneg)
  have "nat b - nat a = nat (b - a)"
    using assms by simp
  then show ?thesis
    by (simp add: py_slice_def lo hi)
qed

lemma py_slice_inside_length:
  assumes "0 \<le> a" and "a \<le> b" and "b \<le> int (length xs)"
  shows "length (py_slice xs a b) = nat (b - a)"
  using assms by (simp add: py_slice_inside)

section \<open>Window count\<close>

text \<open>
  Claim C1. For a panel array of shape (instances, time length L, variables) and any
  seq_len s and pred_len p, the dataset's reported length is
  instances * max (L - s - p + 1, 0). An instance of length 10 with s = 6 and p = 3
  contributes 2 windows, and an instance shorter than s + p contributes none: the
  length is 0 and nothing is raised (the length is a plain integer).
\<close>

theorem window_count:
  "PyTorchDataset_len (PyTorchDataset_init \<lparr>shape = (num, L, vars), entries = es\<rparr> s p)
     = int num * max (int L - s - p + 1) 0
   \<and> PyTorchDataset_len (PyTorchDataset_init \<lparr>shape = (1, 10, vars), entries = es\<rparr> 6 3) = 2
   \<and> (int L < s + p \<longrightarrow>
        PyTorchDataset_len (PyTorchDataset_init \<lparr>shape = (num, L, vars), entries = es\<rparr> s p) = 0)"
  by (simp add: PyTorchDataset_len_def PyTorchDataset_init_def)

theorem window_count_witness:
  "PyTorchDataset_len
     (PyTorchDataset_init \<lparr>shape = (3, 5, 1), entries = replicate 3 (replicate 5 [0::int])\<rparr> 6 0)
     = 0
   \<and> PyTorchDataset_len
     (PyTorchDataset_init \<lparr>shape = (3, 10, 1), entries = replicate 3 (replicate 10 [0::int])\<rparr> 6 3)
     = 6"
  using window_count [of 3 5 1 "replicate 3 (replicate 5 [0::int])" 6 0]
        window_count [of 3 10 1 "replicate 3 (replicate 10 [0::int])" 6 3]
  by simp

section \<open>Item access\<close>

lemma window_index_bounds:
  fixes i w :: int and num :: nat
  assumes "0 \<le> i" and "i < int num * max w 0"
  shows "0 < w" and "0 \<le> i div w" and "i div w < int num"
    and "0 \<le> i mod w" and "i mod w < w"
proof -
  show w: "0 < w"
  proof (rule ccontr)
    assume "\<not> 0 < w"
    then have "max w 0 = 0" by simp
    with assms show False by simp
  qed
  then have i: "i < int num * w"
    using assms by (simp add: max_def)
  show "0 \<le> i div w"
    using w assms by (simp add: pos_imp_zdiv_nonneg_iff)
  have "i div w * w + i mod w = i" by simp
  moreover have "0 \<le> i mod w" using w by simp
  ultimately have "i div w * w \<le> i" by linarith
  with i have "i div w * w < int num * w" by linarith
  with w show "i div w < int num" by simp
  show "0 \<le> i mod w" and "i mod w < w"
    using w by simp_all
qed

lemma rectangular_instance:
  assumes "rectangular y" and "shape y = (num, L, vars)" and "0 \<le> n" and "n < int num"
  shows "py_index (entries y) n = Inr (entries y ! nat n)"
    and "length (entries y ! nat n) = L"
proof -
  from assms have len: "length (entries y) = num"
    and all: "list_all (\<lambda>inst. length inst = L) (entries y)"
    by (auto simp: rectangular_def list_all_iff)
  from len assms show "py_index (entries y) n = Inr (entries y ! nat n)"
    by (simp add: py_index_def)
  from len assms have "nat n < length (entries y)" by simp
  with all show "length (entries y ! nat n) = L"
    by (simp add: list_all_length)
qed

text \<open>
  Claim C2. Let the array be rectangular (every instance has the same length L), let
  seq_len s and pred_len p be non-negative, and let \<open>0 \<le> i < length()\<close>. With
  w = L - s - p + 1 windows per instance, \<open>get(i)\<close> returns, without raising, the pair
  taken from instance n = i div w at offset m = i mod w: the history is the s rows from
  row m on, the future the p rows from row m + s on. Both slices lie inside the
  instance, so they have exactly s and p rows.
\<close>

theorem getitem_window:
  fixes y :: "'a ndarray3"
  assumes "rectangular y" and "shape y = (num, L, vars)"
    and "0 \<le> s" and "0 \<le> p"
    and "0 \<le> i" and "i < PyTorchDataset_len (PyTorchDataset_init y s p)"
  shows "PyTorchDataset_getitem (PyTorchDataset_init y s p) i =
           Inr (take (nat s) (drop (nat (i mod (int L - s - p + 1)))
                  (entries y ! nat (i div (int L - s - p + 1)))),
                take (nat p) (drop (nat (i mod (int L - s - p + 1) + s))
                  (entries y ! nat (i div (int L - s - p + 1)))))
    \<and> nat (i div (int L - s - p + 1)) < num
    \<and> nat (i mod (int L - s - p + 1)) + nat s + nat p \<le> length
           (entries y ! nat (i div (int L - s - p + 1)))"
proof -
  let ?w = "int L - s - p + 1"
  let ?n = "i div ?w" and ?m = "i mod ?w"
  let ?ds = "PyTorchDataset_init y s p"
  have fields: "ds_len_single ?ds = ?w" "ds_seq_len ?ds = s" "ds_pred_len ?ds = p"
    "ds_y ?ds = y"
    using assms(2) by (simp_all add: PyTorchDataset_init_def)
  have "i < int num * max ?w 0"
    using assms(2,6) by (simp add: PyTorchDataset_len_def PyTorchDataset_init_def)
  from window_index_bounds [OF assms(5) this]
  have w: "0 < ?w" and n: "0 \<le> ?n" "?n < int num" and m: "0 \<le> ?m" "?m < ?w"
    by blast+
  from rectangular_instance [OF assms(1,2) n]
  have inst: "py_index (entries y) ?n = Inr (entries y ! nat ?n)"
    and len: "length (entries y ! nat ?n) = L"
    by blast+
  let ?inst = "entries y ! nat ?n"
  have fit: "?m + s + p \<le> int (length ?inst)"
    using m len by simp
  have hist: "py_slice ?inst ?m (?m + s) = take (nat s) (drop (nat ?m) ?inst)"
    using py_slice_inside [of ?m "?m + s" ?inst] m assms(3,4) fit by simp
  have futu: "py_slice ?inst (?m + s) (?m + s + p) = take (nat p) (drop (nat (?m + s)) ?inst)"
    using py_slice_inside [of "?m + s" "?m + s + p" ?inst] m assms(3,4) fit by simp
  have item: "PyTorchDataset_getitem ?ds i =
          Inr (take (nat s) (drop (nat ?m) ?inst), take (nat p) (drop (nat (?m + s)) ?inst))"
    using w by (simp add: PyTorchDataset_getitem_def fields inst hist futu Let_def)
  have inside: "nat ?n < num"
    using n by simp
  have "nat ?m + nat s + nat p \<le> length ?inst"
    using fit m assms(3,4) by linarith
  with item inside show ?thesis
    by blast
qed

theorem getitem_window_witness:
  "PyTorchDataset_getitem
     (PyTorchDataset_init
        \<lparr>shape = (2, 4, 1),
         entries = [[[10], [11], [12], [13]], [[20], [21], [22], [23::int]]]\<rparr> 2 1) 3
     = Inr ([[21], [22]], [[23]])"
proof -
  let ?y = "\<lparr>shape = (2, 4, 1),
             entries = [[[10], [11], [12], [13]], [[20], [21], [22], [23::int]]]\<rparr>"
  have r: "rectangular ?y"
    by (simp add: rectangular_def)
  have sh: "shape ?y = (2, 4, 1)"
    by simp
  have i: "3 < PyTorchDataset_len (PyTorchDataset_init ?y 2 1)"
    by (simp add: PyTorchDataset_len_def PyTorchDataset_init_def)
  have "(3::int) div 2 = 1" "(3::int) mod 2 = 1"
    by simp_all
  with getitem_window [OF r sh _ _ _ i] show ?thesis
    by simp
qed

section \<open>The datasets over a single series\<close>

text \<open>
  Claim C7, as the code has it. With an exogenous block whose column count is that of
  the series, the item's input is the history window followed by the exogenous rows:
  the concatenation runs along dimension 0, the time axis. A block with another
  column count makes the concatenation raise. Without exogenous data the contribution
  is the empty one-dimensional tensor, which is still handed to the concatenation and
  leaves the history window as it is.
\<close>

theorem train_item_concatenation:
  "PyTorchTrainDataset_getitem
     (PyTorchTrainDataset_init (c, yrows) s (Some h) (Some (c, xrows))) i
     = Inr (Tensor2 c (py_slice yrows i (i + s) @ py_slice xrows (i + s) (i + s + h)),
            Tensor2 c (py_slice yrows (i + s) (i + s + h)))
   \<and> (c' \<noteq> c \<longrightarrow>
        PyTorchTrainDataset_getitem
          (PyTorchTrainDataset_init (c, yrows) s (Some h) (Some (c', xrows))) i
        = Inl (RuntimeError ''Sizes of tensors must match except in dimension 0''))
   \<and> PyTorchTrainDataset_getitem (PyTorchTrainDataset_init (c, yrows) s (Some h) None) i
     = Inr (Tensor2 c (py_slice yrows i (i + s)),
            Tensor2 c (py_slice yrows (i + s) (i + s + h)))
   \<and> torch_cat (Tensor2 c (py_slice yrows i (i + s))) (Tensor1 [])
     = Inr (Tensor2 c (py_slice yrows i (i + s)))"
  by (simp add: PyTorchTrainDataset_getitem_def PyTorchTrainDataset_init_def add_fh_def)

theorem train_item_concatenation_witness:
  "PyTorchTrainDataset_getitem
     (PyTorchTrainDataset_init (1, [[1], [2], [3], [4::int]]) 2 (Some 2)
        (Some (2, [[10, 11], [20, 21], [30, 31], [40, 41]]))) 0
     = Inl (RuntimeError ''Sizes of tensors must match except in dimension 0'')"
  using train_item_concatenation
    [of 1 "[[1], [2], [3], [4::int]]" 2 2 "[[10, 11], [20, 21], [30, 31], [40, 41]]" 0 2]
  by simp

theorem train_item_variable_axis_counterexample:
  "PyTorchTrainDataset_getitem
     (PyTorchTrainDataset_init (1, [[1], [2], [3], [4::int]]) 2 (Some 2)
        (Some (1, [[10], [20], [30], [40]]))) 0
     = Inr (Tensor2 1 [[1], [2], [30], [40]], Tensor2 1 [[3], [4]])
   \<and> cat_variable_axis (Tensor2 1 [[1], [2]]) (Tensor2 1 [[30], [40::int]])
     = Inr (Tensor2 2 [[1, 30], [2, 40]])
   \<and> Tensor2 1 [[1], [2], [30], [40]] \<noteq> Tensor2 2 [[1, 30], [2, 40::int]]"
  by (simp add: PyTorchTrainDataset_getitem_def PyTorchTrainDataset_init_def add_fh_def
        py_slice_def clip_bound_def)

lemma trailing_rows:
  assumes "1 \<le> s" and "s \<le> int (length inst)"
  shows "py_slice_from inst (- s) = drop (length inst - nat s) inst"
    and "length (drop (length inst - nat s) inst) = nat s"
proof -
  have "nat (int (length inst) - s) = length inst - nat s"
    using assms by (simp add: nat_diff_distrib')
  then show "py_slice_from inst (- s) = drop (length inst - nat s) inst"
    using assms by (simp add: py_slice_from_def clip_bound_def max_def)
  show "length (drop (length inst - nat s) inst) = nat s"
    using assms by simp
qed

lemma whole_window:
  assumes "0 \<le> s" and "length tail = nat s"
  shows "py_slice tail 0 s = tail" and "py_slice tail s s = []"
  using assms by (simp_all add: py_slice_def clip_bound_def)

text \<open>
  The dataset of the test split, on the panel array: \<open>y[:, -seq_len:, :]\<close> with
  \<open>pred_len = 0\<close>. With at least \<open>seq_len \<ge> 1\<close> observations per instance it has one
  item per instance, the last \<open>seq_len\<close> rows of the instance with a target without
  rows.
\<close>

lemma test_split_dataset:
  assumes "1 \<le> s" and "s \<le> int L" and "shape y0 = (num, L, vars)"
    and "length (entries y0) = num"
  shows "PyTorchDataset_len (PyTorchDataset_init (last_steps y0 s) s 0) = int num"
    and "0 \<le> i \<Longrightarrow> i < int num \<Longrightarrow> length (entries y0 ! nat i) = L \<Longrightarrow>
         PyTorchDataset_getitem (PyTorchDataset_init (last_steps y0 s) s 0) i
           = Inr (drop (L - nat s) (entries y0 ! nat i), [])"
proof -
  let ?ds = "PyTorchDataset_init (last_steps y0 s) s 0"
  have "nat (int L - s) = L - nat s"
    using assms(1,2) by (simp add: nat_diff_distrib')
  then have "clip_bound L (- s) = L - nat s"
    using assms(1,2) by (simp add: clip_bound_def max_def)
  moreover have "L - (L - nat s) = nat s"
    using assms(1,2) by linarith
  ultimately have sh: "shape (last_steps y0 s) = (num, nat s, vars)"
    using assms(3) by (simp add: last_steps_def)
  have en: "entries (last_steps y0 s) = map (\<lambda>inst. py_slice_from inst (- s)) (entries y0)"
    using assms(3) by (simp add: last_steps_def)
  have single: "ds_len_single ?ds = 1"
    using sh assms(1) by (simp add: PyTorchDataset_init_def)
  have fields: "ds_num ?ds = num" "ds_seq_len ?ds = s" "ds_pred_len ?ds = 0"
    "ds_y ?ds = last_steps y0 s"
    using sh by (simp_all add: PyTorchDataset_init_def)
  show "PyTorchDataset_len ?ds = int num"
    by (simp add: PyTorchDataset_len_def single fields)
  show "PyTorchDataset_getitem ?ds i = Inr (drop (L - nat s) (entries y0 ! nat i), [])"
    if i: "0 \<le> i" "i < int num" and len: "length (entries y0 ! nat i) = L"
  proof -
    let ?inst = "entries y0 ! nat i"
    have inside: "nat i < length (entries y0)"
      using i assms(4) by simp
    have "py_index (entries (last_steps y0 s)) i = Inr (py_slice_from ?inst (- s))"
      using i assms(4) inside by (simp add: py_index_def en)
    moreover have sl: "s \<le> int (length ?inst)"
      using assms(2) len by simp
    have tail: "py_slice_from ?inst (- s) = drop (L - nat s) ?inst"
      "length (drop (L - nat s) ?inst) = nat s"
      using trailing_rows [OF assms(1) sl] len by simp_all
    have s0: "0 \<le> s"
      using assms(1) by simp
    note tail(1)
    moreover have "py_slice (drop (L - nat s) ?inst) 0 s = drop (L - nat s) ?inst"
      "py_slice (drop (L - nat s) ?inst) s s = []"
      using whole_window [OF s0 tail(2)] by simp_all
    ultimately show ?thesis
      by (simp add: PyTorchDataset_getitem_def single fields Let_def)
  qed
qed

text \<open>
  Claim C8, as the code has it. For a single series with at least seq_len rows, the
  pure-inference dataset reports length 1, and its item 0 is the window of the last
  seq_len rows of the series, which has exactly seq_len rows, paired with a target
  without rows: for \<open>PyTorchPredDataset\<close> as \<open>build_pytorch_pred_dataloader\<close> builds it
  when seq_len is not negative, and for the dataset of the loader that
  \<open>build_dataloader\<close> builds for the test split (which \<open>_predict\<close> uses) when seq_len
  is at least 1. On the test split, a panel of several instances with at least
  seq_len rows each has one such item per instance.
\<close>

theorem pred_dataset_trailing_window:
  assumes "0 \<le> s" and "s \<le> int (length rows)"
  shows "PyTorchPredDataset_len (pred_dataset_of (c, rows) s) = 1
       \<and> PyTorchPredDataset_getitem (pred_dataset_of (c, rows) s) 0
           = Inr (Tensor2 c (drop (length rows - nat s) rows), Tensor2 c [])
       \<and> length (drop (length rows - nat s) rows) = nat s
       \<and> (1 \<le> s \<and> df_index y = Index ts \<and> df_values y = rows
            \<and> seq_len self network = s \<and> custom_dataset_train self = None
            \<and> 0 < batch_size self \<longrightarrow>
          (case build_dataloader self network y ''test'' of
             Inl e \<Rightarrow> None
           | Inr dataloader \<Rightarrow>
               Some (md_len (dl_dataset dataloader), md_getitem (dl_dataset dataloader) 0))
            = Some (1, Inr (drop (length rows - nat s) rows, [])))
       \<and> (1 \<le> s \<and> s \<le> int L \<and> rectangular y0 \<and> shape y0 = (num, L, vars)
            \<and> 0 \<le> i \<and> i < int num \<longrightarrow>
          PyTorchDataset_len (PyTorchDataset_init (last_steps y0 s) s 0) = int num
          \<and> PyTorchDataset_getitem (PyTorchDataset_init (last_steps y0 s) s 0) i
              = Inr (drop (L - nat s) (entries y0 ! nat i), []))"
proof -
  let ?tail = "py_slice_from rows (- s)"
  have hist: "py_slice ?tail 0 s = drop (length rows - nat s) rows"
  proof (cases "s = 0")
    case True
    then show ?thesis by (simp add: py_slice_def clip_bound_def)
  next
    case False
    with assms have one: "1 \<le> s" by simp
    note t = trailing_rows [OF one assms(2)]
    from whole_window(1) [OF assms(1) t(2)] t(1)
    show ?thesis by simp
  qed
  have target: "py_slice ?tail s s = []"
    by (simp add: py_slice_def)
  have item: "PyTorchPredDataset_getitem (pred_dataset_of (c, rows) s) 0
          = Inr (Tensor2 c (drop (length rows - nat s) rows), Tensor2 c [])"
    using hist target
    by (simp add: PyTorchPredDataset_getitem_def pred_dataset_of_def
          PyTorchPredDataset_init_def)
  have rows: "length (drop (length rows - nat s) rows) = nat s"
    using assms by simp
  have loader: "(case build_dataloader self network y ''test'' of
             Inl e \<Rightarrow> None
           | Inr dataloader \<Rightarrow>
               Some (md_len (dl_dataset dataloader), md_getitem (dl_dataset dataloader) 0))
            = Some (1, Inr (drop (length rows - nat s) rows, []))"
    if h: "1 \<le> s \<and> df_index y = Index ts \<and> df_values y = rows
            \<and> seq_len self network = s \<and> custom_dataset_train self = None
            \<and> 0 < batch_size self"
  proof -
    let ?y0 = "\<lparr> shape = (1, length rows, length (df_columns y)), entries = [rows] \<rparr>"
    let ?ds = "PyTorchDataset_init (last_steps ?y0 s) s 0"
    have prep: "prepare_data y = Inr ?y0"
      using h by (simp add: prepare_data_def)
    have one: "1 \<le> s" using h by simp
    have sh: "shape ?y0 = (1, length rows, length (df_columns y))" by simp
    have en: "length (entries ?y0) = 1" by simp
    from test_split_dataset(1) [OF one assms(2) sh en]
    have len: "PyTorchDataset_len ?ds = 1" by simp
    have z: "(0::int) \<le> 0" and o: "(0::int) < int 1"
      and l: "length (entries ?y0 ! nat 0) = length rows"
      by simp_all
    from test_split_dataset(2) [OF one assms(2) sh en z o l]
    have get: "PyTorchDataset_getitem ?ds 0 = Inr (drop (length rows - nat s) rows, [])"
      by simp
    have "build_dataloader self network y ''test''
            = Inr \<lparr> dl_dataset = as_map_dataset ?ds, dl_batch_size = batch_size self,
                    dl_shuffle = True \<rparr>"
      using h len by (simp add: build_dataloader_def prep DataLoader_init_def as_map_dataset_def)
    then show ?thesis
      using len get by (simp add: as_map_dataset_def)
  qed
  have panel: "PyTorchDataset_len (PyTorchDataset_init (last_steps y0 s) s 0) = int num
          \<and> PyTorchDataset_getitem (PyTorchDataset_init (last_steps y0 s) s 0) i
              = Inr (drop (L - nat s) (entries y0 ! nat i), [])"
    if h: "1 \<le> s \<and> s \<le> int L \<and> rectangular y0 \<and> shape y0 = (num, L, vars)
            \<and> 0 \<le> i \<and> i < int num"
  proof -
    from h have one: "1 \<le> s" and sL: "s \<le> int L" and sh: "shape y0 = (num, L, vars)"
      and i: "0 \<le> i" "i < int num" and r: "rectangular y0"
      by simp_all
    from rectangular_instance [OF r sh i]
    have len: "length (entries y0 ! nat i) = L" by simp
    from r sh have en: "length (entries y0) = num"
      by (simp add: rectangular_def)
    from test_split_dataset(1) [OF one sL sh en]
      test_split_dataset(2) [OF one sL sh en i len]
    show ?thesis by simp
  qed
  from item rows loader panel show ?thesis
    by (simp add: PyTorchPredDataset_len_def)
qed

theorem pred_dataset_trailing_window_witness:
  "PyTorchPredDataset_getitem (pred_dataset_of (1, [[1], [2], [3], [4], [5::int]]) 3) 0
     = Inr (Tensor2 1 [[3], [4], [5]], Tensor2 1 [])
   \<and> (case build_dataloader (example_estimator 3 0) 0
             \<lparr> df_index = (Index [96, 97, 98, 99, 100] :: (nat, int) pd_index),
               df_index_names = [''time''], df_columns = [''v''],
               df_values = [[1], [2], [3], [4], [5::int]] \<rparr> ''test'' of
         Inl e \<Rightarrow> None
       | Inr dataloader \<Rightarrow>
           Some (md_len (dl_dataset dataloader), md_getitem (dl_dataset dataloader) 0))
       = Some (1, Inr ([[3], [4], [5]], []))"
proof -
  let ?frame = "\<lparr> df_index = (Index [96, 97, 98, 99, 100] :: (nat, int) pd_index),
                 df_index_names = [''time''], df_columns = [''v''],
                 df_values = [[1], [2], [3], [4], [5::int]] \<rparr>"
  have s0: "(0::int) \<le> 3"
    by simp
  have sL: "(3::int) \<le> int (length [[1], [2], [3], [4], [5::int]])"
    by simp
  have h: "(1::int) \<le> 3 \<and> df_index ?frame = Index [96, 97, 98, 99, 100]
            \<and> df_values ?frame = [[1], [2], [3], [4], [5::int]]
            \<and> seq_len (example_estimator 3 0) 0 = 3
            \<and> custom_dataset_train (example_estimator 3 0) = None
            \<and> 0 < batch_size (example_estimator 3 0)"
    by (simp add: example_estimator_def)
  note all = pred_dataset_trailing_window
    [OF s0 sL, of 1 ?frame "[96, 97, 98, 99, 100]" "example_estimator 3 0" 0]
  note item = all [THEN conjunct2, THEN conjunct1]
  note loader = all [THEN conjunct2, THEN conjunct2, THEN conjunct2, THEN conjunct1,
      THEN mp, OF h]
  from item loader show ?thesis
    by simp
qed

theorem pred_dataset_counterexample:
  "PyTorchPredDataset_getitem (pred_dataset_of (1, [[1], [2::int]]) 3) 0
     = Inr (Tensor2 1 [[1], [2]], Tensor2 1 [])
   \<and> pd_seq_len (pred_dataset_of (1, [[1], [2::int]]) 3) = 3
   \<and> length [[1], [2::int]] = 2
   \<and> PyTorchDataset_len
       (PyTorchDataset_init
          (last_steps \<lparr> shape = (1, 2, 1), entries = [[[1], [2::int]]] \<rparr> 3) 3 0) = 0
   \<and> PyTorchDataset_len
       (PyTorchDataset_init
          (last_steps
             \<lparr> shape = (1, 5, 1), entries = [[[1], [2], [3], [4], [5::int]]] \<rparr> 0) 0 0) = 6
   \<and> PyTorchDataset_len
       (PyTorchDataset_init
          (last_steps
             \<lparr> shape = (2, 3, 1), entries = [[[1], [2], [3]], [[4], [5], [6::int]]] \<rparr> 2)
          2 0) = 2"
  by (simp add: PyTorchPredDataset_getitem_def pred_dataset_of_def
        PyTorchPredDataset_init_def py_slice_def py_slice_from_def clip_bound_def
        PyTorchDataset_len_def PyTorchDataset_init_def last_steps_def)

text \<open>
  Claim C10. A prediction dataset constructed with an exogenous array raises an
  attribute error at every item access, since the constructor leaves the attribute
  \<open>fh\<close> unset and the exogenous branch reads it; constructed without exogenous data,
  every item access returns the two slices.
\<close>

theorem pred_dataset_exogenous_raises:
  "PyTorchPredDataset_getitem (PyTorchPredDataset_init y s (Some X)) i
     = Inl (AttributeError ''PyTorchPredDataset object has no attribute fh'')
   \<and> PyTorchPredDataset_getitem (PyTorchPredDataset_init y s None) i
     = Inr (Tensor2 (fst y) (py_slice (snd y) i (i + s)),
            Tensor2 (fst y) (py_slice (snd y) (i + s) (i + s)))"
  by (simp add: PyTorchPredDataset_getitem_def PyTorchPredDataset_init_def)

section \<open>Optimizer instantiation: the cases\<close>

lemma comma_separated_lists:
  "k \<in> set ks \<Longrightarrow> \<exists>pre post. comma_separated ks = pre @ k @ post"
proof (induction ks rule: comma_separated.induct)
  case 1
  then show ?case by simp
next
  case (2 k')
  then have "comma_separated [k'] = [] @ k @ []" by simp
  then show ?case by blast
next
  case (3 k' k'' ks)
  show ?case
  proof (cases "k = k'")
    case True
    then have "comma_separated (k' # k'' # ks) = [] @ k @ ('', '' @ comma_separated (k'' # ks))"
      by simp
    then show ?thesis by blast
  next
    case False
    with 3 obtain pre post where "comma_separated (k'' # ks) = pre @ k @ post"
      by auto
    then have "comma_separated (k' # k'' # ks) = (k' @ '', '' @ pre) @ k @ post"
      by simp
    then show ?thesis by blast
  qed
qed

lemma optimizer_message_lists:
  assumes "k \<in> set ks"
  shows "\<exists>pre post. optimizer_message key_text ks = pre @ key_text k @ post"
proof -
  from assms have "key_text k \<in> set (map key_text ks)" by simp
  from comma_separated_lists [OF this] obtain pre post
    where "comma_separated (map key_text ks) = pre @ key_text k @ post" by blast
  then have "optimizer_message key_text ks =
      (''Please pass one of dict_keys(['' @ pre) @ key_text k @
      (post @ ''])'' @ '' for '' @ [CHR 0x60] @ ''optimizer'' @ [CHR 0x60] @ ''.'')"
    by (simp add: optimizer_message_def dict_keys_text_def)
  then show ?thesis by blast
qed

text \<open>
  Claim C9, as the code has it. A non-empty name that is not a key of the registry
  raises a type error whose message lists every key of the registry, as \<open>repr\<close>
  prints it; no name, or the empty string, calls the default Adam constructor with the
  configured learning rate and no other argument; a non-empty name of the registry
  calls its constructor with the learning rate, and with the keyword arguments when
  some are configured, and the result is the constructor's. When the keyword arguments
  themselves hold the key \<open>lr\<close>, that call raises a type error and the constructor does
  not run.
\<close>

theorem instantiate_optimizer_cases:
  "(name \<noteq> [] \<and> map_of registry name = None \<longrightarrow>
      instantiate_optimizer key_text registry adam params rate (Some name) kw
        = Inl (TypeError (optimizer_message key_text (map fst registry))))
   \<and> (\<forall>k \<in> set (map fst registry).
        \<exists>pre post. optimizer_message key_text (map fst registry) = pre @ key_text k @ post)
   \<and> instantiate_optimizer key_text registry adam params rate None kw = adam params rate []
   \<and> instantiate_optimizer key_text registry adam params rate (Some []) kw
       = adam params rate []
   \<and> (name \<noteq> [] \<and> map_of registry name = Some ctor \<longrightarrow>
        instantiate_optimizer key_text registry adam params rate (Some name) None
          = ctor params rate []
        \<and> instantiate_optimizer key_text registry adam params rate (Some name) (Some [])
          = ctor params rate []
        \<and> (args \<noteq> [] \<and> ''lr'' \<notin> fst ` set args \<longrightarrow>
             instantiate_optimizer key_text registry adam params rate (Some name) (Some args)
               = ctor params rate args)
        \<and> (''lr'' \<in> fst ` set args \<longrightarrow>
             instantiate_optimizer key_text registry adam params rate (Some name) (Some args)
               = Inl (TypeError duplicate_lr_message)))"
proof -
  have listed: "\<forall>k \<in> set (map fst registry).
        \<exists>pre post. optimizer_message key_text (map fst registry) = pre @ key_text k @ post"
    using optimizer_message_lists by blast
  have dup: "''lr'' \<in> fst ` set args \<Longrightarrow> args \<noteq> []"
    by auto
  have known: "name \<noteq> [] \<and> map_of registry name = Some ctor \<longrightarrow>
        instantiate_optimizer key_text registry adam params rate (Some name) None
          = ctor params rate []
        \<and> instantiate_optimizer key_text registry adam params rate (Some name) (Some [])
          = ctor params rate []
        \<and> (args \<noteq> [] \<and> ''lr'' \<notin> fst ` set args \<longrightarrow>
             instantiate_optimizer key_text registry adam params rate (Some name) (Some args)
               = ctor params rate args)
        \<and> (''lr'' \<in> fst ` set args \<longrightarrow>
             instantiate_optimizer key_text registry adam params rate (Some name) (Some args)
               = Inl (TypeError duplicate_lr_message))"
    using dup by (simp add: instantiate_optimizer_def call_with_lr_def)
  have unknown: "name \<noteq> [] \<and> map_of registry name = None \<longrightarrow>
      instantiate_optimizer key_text registry adam params rate (Some name) kw
        = Inl (TypeError (optimizer_message key_text (map fst registry)))"
    by (simp add: instantiate_optimizer_def)
  have default: "instantiate_optimizer key_text registry adam params rate None kw
                   = adam params rate []"
    "instantiate_optimizer key_text registry adam params rate (Some []) kw
                   = adam params rate []"
    by (simp_all add: instantiate_optimizer_def)
  from unknown listed default known show ?thesis
    by blast
qed

theorem instantiate_optimizer_cases_witness:
  "instantiate_optimizer py_repr
     [(''Adam'', \<lambda>p r kw. Inr (''Adam'', r, kw)), (''SGD'', \<lambda>p r kw. Inr (''SGD'', r, kw))]
     (\<lambda>p r kw. Inr (''Adam'', r, kw)) () (1::int) (Some ''SGD'') (Some [(''momentum'', 9::int)])
     = (Inr (''SGD'', 1, [(''momentum'', 9)]) :: py_error + string \<times> int \<times> (string \<times> int) list)
   \<and> instantiate_optimizer py_repr
     [(''Adam'', \<lambda>p r kw. Inr (''Adam'', r, kw)), (''SGD'', \<lambda>p r kw. Inr (''SGD'', r, kw))]
     (\<lambda>p r kw. Inr (''Adam'', r, kw)) () (1::int) (Some ''adam'')
     (None :: (string \<times> int) list option)
     = (Inl (TypeError (optimizer_message py_repr [''Adam'', ''SGD'']))
          :: py_error + string \<times> int \<times> (string \<times> int) list)
   \<and> optimizer_message py_repr [''Adam'', ''SGD'']
     = ''Please pass one of dict_keys(['' @ [CHR 0x27] @ ''Adam'' @ [CHR 0x27] @ '', ''
         @ [CHR 0x27] @ ''SGD'' @ [CHR 0x27] @ '']) for '' @ [CHR 0x60] @ ''optimizer''
         @ [CHR 0x60] @ ''.''"
proof -
  let ?registry = "[(''Adam'', \<lambda>p r kw. Inr (''Adam'', r, kw)),
                    (''SGD'', \<lambda>p r kw. Inr (''SGD'', r, kw))]
                   :: (string \<times> (unit \<Rightarrow> int \<Rightarrow> (string \<times> int) list
                         \<Rightarrow> py_error + string \<times> int \<times> (string \<times> int) list)) list"
  let ?adam = "(\<lambda>p r kw. Inr (''Adam'', r, kw))
                 :: unit \<Rightarrow> int \<Rightarrow> (string \<times> int) list
                      \<Rightarrow> py_error + string \<times> int \<times> (string \<times> int) list"
  have known: "''SGD'' \<noteq> [] \<and> map_of ?registry ''SGD'' = Some (\<lambda>p r kw. Inr (''SGD'', r, kw))"
    by simp
  have args: "[(''momentum'', 9::int)] \<noteq> [] \<and> ''lr'' \<notin> fst ` set [(''momentum'', 9::int)]"
    by simp
  have unknown: "''adam'' \<noteq> [] \<and> map_of ?registry ''adam'' = None"
    by simp
  have message: "optimizer_message py_repr [''Adam'', ''SGD'']
     = ''Please pass one of dict_keys(['' @ [CHR 0x27] @ ''Adam'' @ [CHR 0x27] @ '', ''
         @ [CHR 0x27] @ ''SGD'' @ [CHR 0x27] @ '']) for '' @ [CHR 0x60] @ ''optimizer''
         @ [CHR 0x60] @ ''.''"
    by code_simp
  from instantiate_optimizer_cases
    [of "''SGD''" ?registry py_repr ?adam "()" 1 None "\<lambda>p r kw. Inr (''SGD'', r, kw)"
      "[(''momentum'', 9::int)]"]
    known args
  have first: "instantiate_optimizer py_repr ?registry ?adam () 1 (Some ''SGD'')
                 (Some [(''momentum'', 9::int)])
               = Inr (''SGD'', 1, [(''momentum'', 9)])"
    by blast
  from instantiate_optimizer_cases
    [of "''adam''" ?registry py_repr ?adam "()" 1 None "\<lambda>p r kw. Inr (''SGD'', r, kw)"
      "[(''momentum'', 9::int)]"]
    unknown
  have second: "instantiate_optimizer py_repr ?registry ?adam () 1 (Some ''adam'') None
               = Inl (TypeError (optimizer_message py_repr (map fst ?registry)))"
    by blast
  from first second message show ?thesis
    by simp
qed

theorem instantiate_optimizer_counterexample:
  "map_of [(''Adam'', \<lambda>p r kw. Inr (''Adam'', r, kw)), (''SGD'', \<lambda>p r kw. Inr (''SGD'', r, kw))]
       ([] :: string)
     = (None :: (unit \<Rightarrow> int \<Rightarrow> (string \<times> int) list
                   \<Rightarrow> py_error + string \<times> int \<times> (string \<times> int) list) option)
   \<and> instantiate_optimizer py_repr
     [(''Adam'', \<lambda>p r kw. Inr (''Adam'', r, kw)), (''SGD'', \<lambda>p r kw. Inr (''SGD'', r, kw))]
     (\<lambda>p r kw. Inr (''Adam'', r, kw)) () (1::int) (Some [])
     (None :: (string \<times> int) list option)
     = (Inr (''Adam'', 1, []) :: py_error + string \<times> int \<times> (string \<times> int) list)
   \<and> instantiate_optimizer py_repr
     [(''Adam'', \<lambda>p r kw. Inr (''Adam'', r, kw)), (''SGD'', \<lambda>p r kw. Inr (''SGD'', r, kw))]
     (\<lambda>p r kw. Inr (''Adam'', r, kw)) () (1::int) (Some ''SGD'') (Some [(''lr'', 5::int)])
     = (Inl (TypeError duplicate_lr_message)
          :: py_error + string \<times> int \<times> (string \<times> int) list)"
  by (simp add: instantiate_optimizer_def call_with_lr_def)

section \<open>Index reconstruction\<close>

lemma np_repeat_Cons: "np_repeat (u # us) h = replicate h u @ np_repeat us h"
  by (simp add: np_repeat_def)

lemma list_times_Suc: "list_times ts (Suc n) = ts @ list_times ts n"
  by (simp add: list_times_def)

lemma length_np_repeat: "length (np_repeat us h) = length us * h"
  by (induction us) (simp_all add: np_repeat_def)

lemma length_list_times: "length (list_times ts n) = n * length ts"
  by (induction n) (simp_all add: list_times_def)

lemma length_horizon_steps: "length (horizon_steps to_abs h) = h"
  by (simp add: horizon_steps_def)

lemma zip_repeat_times:
  assumes "length ts = h"
  shows "zip (np_repeat us h) (list_times ts (length us))
           = concat (map (\<lambda>u. map (Pair u) ts) us)"
proof (induction us)
  case Nil
  then show ?case by (simp add: np_repeat_def)
next
  case (Cons u us)
  have "zip (replicate h u) ts = map (Pair u) ts"
    using assms by (simp add: zip_replicate1)
  with Cons assms show ?case
    by (simp add: np_repeat_Cons list_times_Suc)
qed

text \<open>
  When the prediction tensor has one batch row per distinct instance identifier, the
  reconstructed index pairs every identifier, in ascending order, with the absolute
  timestamps of the steps 1..h.
\<close>

lemma reconstruct_index_multi:
  assumes "n = length (np_unique (map fst rows))"
  shows "reconstruct_index to_abs (MultiIndex rows) n h
           = Inr (MultiIndex (concat (map (\<lambda>u. map (\<lambda>k. (u, to_abs k)) [1 .. int h])
                                       (np_unique (map fst rows)))))"
proof -
  let ?us = "np_unique (map fst rows)"
  let ?ts = "horizon_steps to_abs h"
  have len: "length ?ts = h"
    by (rule length_horizon_steps)
  have same: "length (np_repeat ?us h) = length (list_times ?ts n)"
    using assms by (simp add: length_np_repeat length_list_times len)
  have "zip (np_repeat ?us h) (list_times ?ts n) = concat (map (\<lambda>u. map (Pair u) ?ts) ?us)"
    using zip_repeat_times [OF len, of ?us] assms by simp
  also have "\<dots> = concat (map (\<lambda>u. map (\<lambda>k. (u, to_abs k)) [1 .. int h]) ?us)"
    by (simp add: horizon_steps_def comp_def)
  finally show ?thesis
    using same by (simp add: reconstruct_index_def Let_def)
qed

text \<open>
  On a panel whose rows are sorted by instance identifier, the ascending order of
  \<open>numpy.unique\<close> is the panel's own order.
\<close>

lemma np_unique_sorted_panel:
  "sorted (map fst rows) \<Longrightarrow> np_unique (map fst rows) = remdups (map fst rows)"
  by (simp add: np_unique_def sorted_sort_id)

text \<open>
  Claim C3, evaluated on a panel that lists instance 2 before instance 1, with cutoff
  100 and a horizon of 2 steps. The data of the panel reach the network in the panel's
  order, instance 2 first; the outer level of the reconstructed index is in ascending
  order, instance 1 first. The inner level holds the timestamps 101 and 102 for every
  instance.
\<close>

theorem reconstruct_index_unsorted_panel:
  "(case prepare_data
           \<lparr> df_index = MultiIndex [(2::nat, 99), (2, 100), (1, 99), (1, 100::int)],
             df_index_names = [''id'', ''time''], df_columns = [''v''],
             df_values = [[20], [21], [10], [11::int]] \<rparr> of
      Inl e \<Rightarrow> None
    | Inr y \<Rightarrow> Some (shape y, entries y))
     = Some ((2, 2, 1), [[[20], [21]], [[10], [11]]])
   \<and> reconstruct_index (\<lambda>k. 100 + k)
       (MultiIndex [(2::nat, 99), (2, 100), (1, 99), (1, 100::int)]) 2 2
     = Inr (MultiIndex [(1, 101), (1, 102), (2, 101), (2, 102)])
   \<and> np_repeat (remdups (map fst [(2::nat, 99), (2, 100), (1, 99), (1, 100::int)])) 2
     = [2, 2, 1, 1]"
  by code_simp

section \<open>Horizon filtering\<close>

lemma select_map: "select (map P xs) xs = filter P xs"
  by (induction xs) (simp_all add: select_def)

lemma select_map_zip:
  "select (map P xs) vs = map snd (filter (\<lambda>(x, v). P x) (zip xs vs))"
proof (induction xs arbitrary: vs)
  case Nil
  then show ?case by (simp add: select_def)
next
  case (Cons x xs)
  then show ?case
    by (cases vs) (simp_all add: select_def)
qed

lemma filter_instance_rows:
  assumes "set fh \<subseteq> {1 .. int h}" and "inj_on to_abs {1 .. int h}"
  shows "filter (\<lambda>r. snd r \<in> to_abs ` set fh) (map (\<lambda>k. (u, to_abs k)) [1 .. int h])
           = map (\<lambda>k. (u, to_abs k)) (filter (\<lambda>k. k \<in> set fh) [1 .. int h])"
proof -
  have "to_abs k \<in> to_abs ` set fh \<longleftrightarrow> k \<in> set fh" if "k \<in> set [1 .. int h]" for k
  proof
    assume "to_abs k \<in> to_abs ` set fh"
    then obtain k' where k': "k' \<in> set fh" "to_abs k = to_abs k'"
      by blast
    with assms(1) have "k' \<in> {1 .. int h}" by blast
    moreover from that have "k \<in> {1 .. int h}" by simp
    ultimately have "k = k'"
      using assms(2) k'(2) by (simp add: inj_on_def)
    with k'(1) show "k \<in> set fh" by simp
  next
    assume "k \<in> set fh"
    then show "to_abs k \<in> to_abs ` set fh" by blast
  qed
  then have "filter (\<lambda>k. to_abs k \<in> to_abs ` set fh) [1 .. int h]
               = filter (\<lambda>k. k \<in> set fh) [1 .. int h]"
    by (intro filter_cong) simp_all
  then show ?thesis
    by (simp add: filter_map comp_def)
qed

lemma filter_rows_per_instance:
  assumes "set fh \<subseteq> {1 .. int h}" and "inj_on to_abs {1 .. int h}"
  shows "filter (\<lambda>r. snd r \<in> to_abs ` set fh)
            (concat (map (\<lambda>u. map (\<lambda>k. (u, to_abs k)) [1 .. int h]) us))
          = concat (map (\<lambda>u. map (\<lambda>k. (u, to_abs k))
                                (filter (\<lambda>k. k \<in> set fh) [1 .. int h])) us)"
  by (induction us) (simp_all add: filter_instance_rows [OF assms])

lemma filter_horizon_multi:
  "filter_horizon to_abs fh
     \<lparr> df_index = MultiIndex rs, df_index_names = names, df_columns = cols, df_values = vs \<rparr>
   = \<lparr> df_index = MultiIndex (filter (\<lambda>r. snd r \<in> to_abs ` set fh) rs),
       df_index_names = names, df_columns = cols,
       df_values = map snd (filter (\<lambda>(r, v). snd r \<in> to_abs ` set fh) (zip rs vs)) \<rparr>"
proof -
  have i: "select (map (\<lambda>r. snd r \<in> to_abs ` set fh) rs) rs
             = filter (\<lambda>r. snd r \<in> to_abs ` set fh) rs"
    by (rule select_map)
  have v: "select (map (\<lambda>r. snd r \<in> to_abs ` set fh) rs) vs
             = map snd (filter (\<lambda>(r, v). snd r \<in> to_abs ` set fh) (zip rs vs))"
    by (rule select_map_zip)
  show ?thesis
    by (simp add: filter_horizon_def Let_def loc_mask_def last_level_def comp_def i v)
qed

lemma filter_horizon_flat:
  "filter_horizon to_abs fh
     \<lparr> df_index = Index ts, df_index_names = names, df_columns = cols, df_values = vs \<rparr>
   = \<lparr> df_index = Index (filter (\<lambda>t. t \<in> to_abs ` set fh) ts),
       df_index_names = names, df_columns = cols,
       df_values = map snd (filter (\<lambda>(t, v). t \<in> to_abs ` set fh) (zip ts vs)) \<rparr>"
proof -
  have i: "select (map (\<lambda>t. t \<in> to_abs ` set fh) ts) ts = filter (\<lambda>t. t \<in> to_abs ` set fh) ts"
    by (rule select_map)
  have v: "select (map (\<lambda>t. t \<in> to_abs ` set fh) ts) vs
             = map snd (filter (\<lambda>(t, v). t \<in> to_abs ` set fh) (zip ts vs))"
    by (rule select_map_zip)
  show ?thesis
    by (simp add: filter_horizon_def Let_def loc_mask_def last_level_def i v)
qed

lemma requested_step_iff:
  assumes "set fh \<subseteq> {1 .. int h}" and "inj_on to_abs {1 .. int h}"
    and "k \<in> set [1 .. int h]"
  shows "to_abs k \<in> to_abs ` set fh \<longleftrightarrow> k \<in> set fh"
proof
  assume "to_abs k \<in> to_abs ` set fh"
  then obtain k' where k': "k' \<in> set fh" "to_abs k = to_abs k'"
    by blast
  with assms(1) have "k' \<in> {1 .. int h}" by blast
  moreover from assms(3) have "k \<in> {1 .. int h}" by simp
  ultimately have "k = k'"
    using assms(2) k'(2) by (simp add: inj_on_def)
  with k'(1) show "k \<in> set fh" by simp
next
  assume "k \<in> set fh"
  then show "to_abs k \<in> to_abs ` set fh" by blast
qed

lemma filter_flat_steps:
  assumes "set fh \<subseteq> {1 .. int h}" and "inj_on to_abs {1 .. int h}"
  shows "filter (\<lambda>t. t \<in> to_abs ` set fh) (map to_abs [1 .. int h])
           = map to_abs (filter (\<lambda>k. k \<in> set fh) [1 .. int h])"
proof -
  have "filter (\<lambda>k. to_abs k \<in> to_abs ` set fh) [1 .. int h]
          = filter (\<lambda>k. k \<in> set fh) [1 .. int h]"
    by (intro filter_cong refl requested_step_iff [OF assms])
  then show ?thesis
    by (simp add: filter_map comp_def)
qed

lemma filter_flat_values:
  assumes "set fh \<subseteq> {1 .. int h}" and "inj_on to_abs {1 .. int h}"
  shows "map snd (filter (\<lambda>(t, v). t \<in> to_abs ` set fh) (zip (map to_abs [1 .. int h]) vs))
           = map snd (filter (\<lambda>(k, v). k \<in> set fh) (zip [1 .. int h] vs))"
proof -
  have same: "filter (\<lambda>(k, v). to_abs k \<in> to_abs ` set fh) (zip [1 .. int h] vs)
                = filter (\<lambda>(k, v). k \<in> set fh) (zip [1 .. int h] vs)"
  proof (intro filter_cong refl)
    fix x
    assume "x \<in> set (zip [1 .. int h] vs)"
    then have "fst x \<in> set [1 .. int h]"
      using set_zip_leftD [of "fst x" "snd x" "[1 .. int h]" vs] by simp
    from requested_step_iff [OF assms this]
    show "(case x of (k, v) \<Rightarrow> to_abs k \<in> to_abs ` set fh)
            = (case x of (k, v) \<Rightarrow> k \<in> set fh)"
      by (cases x) simp
  qed
  have "zip (map to_abs [1 .. int h]) vs = map (\<lambda>(k, v). (to_abs k, v)) (zip [1 .. int h] vs)"
    by (simp add: zip_map1)
  then have "map snd (filter (\<lambda>(t, v). t \<in> to_abs ` set fh) (zip (map to_abs [1 .. int h]) vs))
        = map snd (filter (\<lambda>(k, v). to_abs k \<in> to_abs ` set fh) (zip [1 .. int h] vs))"
    by (simp add: filter_map comp_def case_prod_unfold)
  with same show ?thesis
    by simp
qed

text \<open>
  Claim C4. The horizon filter returns exactly the rows of the frame, index entry and
  values, whose inner index value is among the absolute timestamps of the requested
  horizon, in the frame's order, and leaves the level names and the columns as they
  are; this for a frame of several instances and for the flat frame of a single
  series. For a reconstructed frame over the steps 1..h and a requested horizon whose
  steps lie in 1..h (distinct steps having distinct timestamps), the output holds for
  every instance exactly the rows of the requested steps; for a single series, the
  index entries and the value rows of exactly the requested steps.
\<close>

theorem horizon_filter_exact:
  "filter_horizon to_abs fh
       \<lparr> df_index = MultiIndex rows, df_index_names = names, df_columns = cols,
         df_values = vs \<rparr>
     = \<lparr> df_index = MultiIndex (filter (\<lambda>r. snd r \<in> to_abs ` set fh) rows),
         df_index_names = names, df_columns = cols,
         df_values = map snd (filter (\<lambda>(r, v). snd r \<in> to_abs ` set fh) (zip rows vs)) \<rparr>
   \<and> filter_horizon to_abs fh
       \<lparr> df_index = (Index ts :: ('i::linorder, 't) pd_index), df_index_names = names,
         df_columns = cols, df_values = vs \<rparr>
     = \<lparr> df_index = Index (filter (\<lambda>t. t \<in> to_abs ` set fh) ts),
         df_index_names = names, df_columns = cols,
         df_values = map snd (filter (\<lambda>(t, v). t \<in> to_abs ` set fh) (zip ts vs)) \<rparr>
   \<and> (set fh \<subseteq> {1 .. int h} \<and> inj_on to_abs {1 .. int h}
        \<and> n = length (np_unique (map fst y_rows)) \<longrightarrow>
        reconstruct_index to_abs (MultiIndex y_rows) n h
          = Inr (MultiIndex (concat (map (\<lambda>u. map (\<lambda>k. (u, to_abs k)) [1 .. int h])
                                      (np_unique (map fst y_rows)))))
        \<and> df_index (filter_horizon to_abs fh
            \<lparr> df_index = MultiIndex (concat (map (\<lambda>u. map (\<lambda>k. (u, to_abs k)) [1 .. int h])
                                              (np_unique (map fst y_rows)))),
              df_index_names = names, df_columns = cols, df_values = vs \<rparr>)
          = MultiIndex (concat (map (\<lambda>u. map (\<lambda>k. (u, to_abs k))
                                            (filter (\<lambda>k. k \<in> set fh) [1 .. int h]))
                                  (np_unique (map fst y_rows)))))
   \<and> (set fh \<subseteq> {1 .. int h} \<and> inj_on to_abs {1 .. int h} \<longrightarrow>
        reconstruct_index to_abs (Index ts :: ('i::linorder, 't) pd_index) n h
          = Inr (Index (map to_abs [1 .. int h]))
        \<and> filter_horizon to_abs fh
            \<lparr> df_index = (Index (map to_abs [1 .. int h]) :: ('i::linorder, 't) pd_index),
              df_index_names = names, df_columns = cols, df_values = vs \<rparr>
          = \<lparr> df_index = Index (map to_abs (filter (\<lambda>k. k \<in> set fh) [1 .. int h])),
              df_index_names = names, df_columns = cols,
              df_values = map snd (filter (\<lambda>(k, v). k \<in> set fh) (zip [1 .. int h] vs)) \<rparr>)"
proof (intro conjI impI)
  show "filter_horizon to_abs fh
       \<lparr> df_index = MultiIndex rows, df_index_names = names, df_columns = cols,
         df_values = vs \<rparr>
     = \<lparr> df_index = MultiIndex (filter (\<lambda>r. snd r \<in> to_abs ` set fh) rows),
         df_index_names = names, df_columns = cols,
         df_values = map snd (filter (\<lambda>(r, v). snd r \<in> to_abs ` set fh) (zip rows vs)) \<rparr>"
    by (rule filter_horizon_multi)
next
  show "filter_horizon to_abs fh
       \<lparr> df_index = (Index ts :: ('i::linorder, 't) pd_index), df_index_names = names,
         df_columns = cols, df_values = vs \<rparr>
     = \<lparr> df_index = Index (filter (\<lambda>t. t \<in> to_abs ` set fh) ts),
         df_index_names = names, df_columns = cols,
         df_values = map snd (filter (\<lambda>(t, v). t \<in> to_abs ` set fh) (zip ts vs)) \<rparr>"
    by (rule filter_horizon_flat)
next
  assume "set fh \<subseteq> {1 .. int h} \<and> inj_on to_abs {1 .. int h}
        \<and> n = length (np_unique (map fst y_rows))"
  then show "reconstruct_index to_abs (MultiIndex y_rows) n h
          = Inr (MultiIndex (concat (map (\<lambda>u. map (\<lambda>k. (u, to_abs k)) [1 .. int h])
                                      (np_unique (map fst y_rows)))))"
    by (intro reconstruct_index_multi) simp
next
  assume "set fh \<subseteq> {1 .. int h} \<and> inj_on to_abs {1 .. int h}
        \<and> n = length (np_unique (map fst y_rows))"
  then have "set fh \<subseteq> {1 .. int h}" and "inj_on to_abs {1 .. int h}"
    by simp_all
  from filter_rows_per_instance [OF this]
  show "df_index (filter_horizon to_abs fh
            \<lparr> df_index = MultiIndex (concat (map (\<lambda>u. map (\<lambda>k. (u, to_abs k)) [1 .. int h])
                                              (np_unique (map fst y_rows)))),
              df_index_names = names, df_columns = cols, df_values = vs \<rparr>)
          = MultiIndex (concat (map (\<lambda>u. map (\<lambda>k. (u, to_abs k))
                                            (filter (\<lambda>k. k \<in> set fh) [1 .. int h]))
                                  (np_unique (map fst y_rows))))"
    by (simp add: filter_horizon_multi)
next
  show "reconstruct_index to_abs (Index ts :: ('i::linorder, 't) pd_index) n h
          = Inr (Index (map to_abs [1 .. int h]))"
    by (simp add: reconstruct_index_def horizon_steps_def)
next
  assume "set fh \<subseteq> {1 .. int h} \<and> inj_on to_abs {1 .. int h}"
  then have hyps: "set fh \<subseteq> {1 .. int h}" "inj_on to_abs {1 .. int h}"
    by simp_all
  show "filter_horizon to_abs fh
            \<lparr> df_index = (Index (map to_abs [1 .. int h]) :: ('i::linorder, 't) pd_index),
              df_index_names = names, df_columns = cols, df_values = vs \<rparr>
          = \<lparr> df_index = Index (map to_abs (filter (\<lambda>k. k \<in> set fh) [1 .. int h])),
              df_index_names = names, df_columns = cols,
              df_values = map snd (filter (\<lambda>(k, v). k \<in> set fh) (zip [1 .. int h] vs)) \<rparr>"
    by (simp only: filter_horizon_flat filter_flat_steps [OF hyps]
          filter_flat_values [OF hyps])
qed

theorem horizon_filter_exact_witness:
  "reconstruct_index (\<lambda>k. 100 + k)
       (MultiIndex [(1::int, 99), (1, 100), (2, 99), (2, 100::int)]) 2 4
     = Inr (MultiIndex [(1, 101), (1, 102), (1, 103), (1, 104),
                        (2, 101), (2, 102), (2, 103), (2, 104)])
   \<and> filter_horizon (\<lambda>k. 100 + k) [2, 4]
       \<lparr> df_index = MultiIndex [(1::int, 101), (1, 102), (1, 103), (1, 104),
                                (2, 101), (2, 102), (2, 103), (2, 104::int)],
         df_index_names = [''id'', ''time''], df_columns = [''v''],
         df_values = [[1], [2], [3], [4], [5], [6], [7], [8::int]] \<rparr>
     = \<lparr> df_index = MultiIndex [(1, 102), (1, 104), (2, 102), (2, 104)],
         df_index_names = [''id'', ''time''], df_columns = [''v''],
         df_values = [[2], [4], [6], [8]] \<rparr>
   \<and> filter_horizon (\<lambda>k. 100 + k) [2, 4]
       \<lparr> df_index = (Index [101, 102, 103, 104] :: (int, int) pd_index),
         df_index_names = [''time''], df_columns = [''v''],
         df_values = [[1], [2], [3], [4::int]] \<rparr>
     = \<lparr> df_index = Index [102, 104],
         df_index_names = [''time''], df_columns = [''v''],
         df_values = [[2], [4]] \<rparr>"
proof -
  let ?rows = "[(1::int, 99), (1, 100), (2, 99), (2, 100::int)]"
  have fh: "set [2, 4] \<subseteq> {1 .. int 4}"
    by simp
  have inj: "inj_on (\<lambda>k::int. 100 + k) {1 .. int 4}"
    by (simp add: inj_on_def)
  have us: "np_unique [1, 1, 2, 2::int] = [1, 2]"
    by code_simp
  have steps: "[1 .. 4] = [1, 2, 3, 4::int]"
    by code_simp
  have n: "(2::nat) = length (np_unique (map fst ?rows))"
    by code_simp
  note panel = horizon_filter_exact
    [where 'i = int, of "\<lambda>k. 100 + k" "[2, 4]"
      "[(1::int, 101), (1, 102), (1, 103), (1, 104),
        (2, 101), (2, 102), (2, 103), (2, 104::int)]"
      "[''id'', ''time'']" "[''v'']" "[[1], [2], [3], [4], [5], [6], [7], [8::int]]"
      "[]" 4 2 ?rows]
  note series = horizon_filter_exact
    [where 'i = int, of "\<lambda>k. 100 + k" "[2, 4]" "[] :: (int \<times> int) list"
      "[''time'']" "[''v'']" "[[1], [2], [3], [4::int]]"
      "[]" 4 2 ?rows]
  note multi = panel [THEN conjunct1]
  note recon = panel [THEN conjunct2, THEN conjunct2, THEN conjunct1, THEN mp,
      OF conjI [OF fh conjI [OF inj n]], THEN conjunct1]
  note flat = series [THEN conjunct2, THEN conjunct2, THEN conjunct2, THEN mp,
      OF conjI [OF fh inj], THEN conjunct2]
  from recon have first: "reconstruct_index (\<lambda>k. 100 + k) (MultiIndex ?rows) 2 4
     = Inr (MultiIndex [(1, 101), (1, 102), (1, 103), (1, 104),
                        (2, 101), (2, 102), (2, 103), (2, 104)])"
    by (simp add: us steps)
  from multi have second: "filter_horizon (\<lambda>k. 100 + k) [2, 4]
       \<lparr> df_index = MultiIndex [(1::int, 101), (1, 102), (1, 103), (1, 104),
                                (2, 101), (2, 102), (2, 103), (2, 104::int)],
         df_index_names = [''id'', ''time''], df_columns = [''v''],
         df_values = [[1], [2], [3], [4], [5], [6], [7], [8::int]] \<rparr>
     = \<lparr> df_index = MultiIndex [(1, 102), (1, 104), (2, 102), (2, 104)],
         df_index_names = [''id'', ''time''], df_columns = [''v''],
         df_values = [[2], [4], [6], [8]] \<rparr>"
    by simp
  from flat have third: "filter_horizon (\<lambda>k. 100 + k) [2, 4]
       \<lparr> df_index = (Index [101, 102, 103, 104] :: (int, int) pd_index),
         df_index_names = [''time''], df_columns = [''v''],
         df_values = [[1], [2], [3], [4::int]] \<rparr>
     = \<lparr> df_index = Index [102, 104],
         df_index_names = [''time''], df_columns = [''v''],
         df_values = [[2], [4]] \<rparr>"
    by (simp add: steps)
  from first second third show ?thesis
    by blast
qed

section \<open>Fitting on a panel that is too short\<close>

lemma chunks_Nil: "chunks k [] = []"
  by (simp add: chunks.simps)

lemma py_index_last: "fh \<noteq> [] \<Longrightarrow> py_index fh (- 1) = Inr (last fh)"
proof -
  assume ne: "fh \<noteq> []"
  then have pos: "1 \<le> int (length fh)"
    by (cases fh) simp_all
  then have "nat (int (length fh) + - 1) = length fh - 1"
    by simp
  moreover have "py_index fh (- 1) = Inr (fh ! nat (int (length fh) + - 1))"
    using pos unfolding py_index_def by simp
  ultimately show ?thesis
    using ne by (simp add: last_conv_nth)
qed

text \<open>
  The epoch loop itself has no test for an empty loader: over draws without an index
  it makes no optimisation step and returns the state it was given.
\<close>

lemma run_epochs_no_batches:
  assumes "dl_shuffle dataloader" and "\<And>d. d \<in> set draws \<Longrightarrow> d = []"
  shows "run_epochs self crit dataloader st draws = Inr st"
  using assms(2)
proof (induction draws)
  case Nil
  then show ?case by simp
next
  case (Cons d draws)
  then have "d = []" by simp
  with Cons assms(1) show ?case
    by (simp add: run_epoch_def index_batches_def chunks_Nil)
qed

text \<open>
  Claim C5. For a panel whose instance length is smaller than seq_len + pred_len, the
  windowing component reports zero items and raises nothing, and fit on such data
  raises: when the loss and the optimizer have been instantiated, fit ends with the
  error of the loader's constructor, which refuses the empty dataset when fit builds
  the loader, before any epoch runs; otherwise with the error of that instantiation.
\<close>

theorem fit_too_short:
  assumes "prepare_data y = Inr y0" and "shape y0 = (num, L, vars)"
    and "fh \<noteq> []" and "network = build_network self (last fh)"
    and "int L < seq_len self network + pred_len self network"
    and "custom_dataset_train self = None"
  shows "PyTorchDataset_len
           (PyTorchDataset_init y0 (seq_len self network) (pred_len self network)) = 0
       \<and> (\<exists>e. fit self y fh drawn = Inl e)
       \<and> (instantiate_criterion py_repr (criterions self) (MSELoss self) (criterion self)
             (criterion_kwargs self) = Inr crit
          \<and> instantiate_optimizer py_repr (optimizers self) (Adam self) network (lr self)
             (optimizer self) (optimizer_kwargs self) = Inr opt
          \<longrightarrow> fit self y fh drawn
                = Inl (ValueError
                    ''num_samples should be a positive integer value, but got num_samples=0''))"
proof -
  let ?ds = "PyTorchDataset_init y0 (seq_len self network) (pred_len self network)"
  have len: "PyTorchDataset_len ?ds = 0"
    using assms(2,5) by (simp add: PyTorchDataset_len_def PyTorchDataset_init_def)
  have split: "(''train'' = ''test'') = False"
    by simp
  have md: "md_len (as_map_dataset ?ds) = 0"
    using len by (simp add: as_map_dataset_def)
  have loader: "build_dataloader self network y ''train''
                  = Inl (ValueError
                      ''num_samples should be a positive integer value, but got num_samples=0'')"
    using assms(1,6) md by (simp add: build_dataloader_def split DataLoader_init_def)
  have both: "fit self y fh drawn
                = Inl (ValueError
                    ''num_samples should be a positive integer value, but got num_samples=0'')"
    if "instantiate_criterion py_repr (criterions self) (MSELoss self) (criterion self)
             (criterion_kwargs self) = Inr c'"
      and "instantiate_optimizer py_repr (optimizers self) (Adam self) network (lr self)
             (optimizer self) (optimizer_kwargs self) = Inr o'" for c' o'
    using that assms(3,4) loader by (simp add: fit_def py_index_last Let_def)
  have raises: "\<exists>e. fit self y fh drawn = Inl e"
  proof (cases "instantiate_criterion py_repr (criterions self) (MSELoss self)
                  (criterion self) (criterion_kwargs self)")
    case (Inl e)
    then show ?thesis
      using assms(3,4) by (simp add: fit_def py_index_last Let_def)
  next
    case crit: (Inr c')
    show ?thesis
    proof (cases "instantiate_optimizer py_repr (optimizers self) (Adam self) network
                    (lr self) (optimizer self) (optimizer_kwargs self)")
      case (Inl e)
      then show ?thesis
        using crit assms(3,4) by (simp add: fit_def py_index_last Let_def)
    next
      case (Inr o')
      from both [OF crit this] show ?thesis by blast
    qed
  qed
  from len raises both show ?thesis
    by blast
qed

theorem fit_too_short_witness:
  "PyTorchDataset_len
     (PyTorchDataset_init
        \<lparr> shape = (1, 5, 1), entries = [[[1], [2], [3], [4], [5::int]]] \<rparr> 6 0) = 0
   \<and> fit (example_estimator 6 0)
       \<lparr> df_index = (Index [96, 97, 98, 99, 100] :: (nat, int) pd_index),
         df_index_names = [''time''], df_columns = [''v''],
         df_values = [[1], [2], [3], [4], [5::int]] \<rparr>
       [1] (\<lambda>e. [])
     = Inl (ValueError
         ''num_samples should be a positive integer value, but got num_samples=0'')"
proof -
  let ?frame = "\<lparr> df_index = (Index [96, 97, 98, 99, 100] :: (nat, int) pd_index),
                 df_index_names = [''time''], df_columns = [''v''],
                 df_values = [[1], [2], [3], [4], [5::int]] \<rparr>"
  let ?panel = "\<lparr> shape = (1, 5, 1), entries = [[[1], [2], [3], [4], [5::int]]] \<rparr>"
  let ?self = "example_estimator 6 0"
  have a1: "prepare_data ?frame = Inr ?panel"
    by (simp add: prepare_data_def)
  have a2: "shape ?panel = (1, 5, 1)"
    by simp
  have a3: "[1::int] \<noteq> []"
    by simp
  have a4: "(0::nat) = build_network ?self (last [1])"
    by (simp add: example_estimator_def)
  have a5: "int 5 < seq_len ?self 0 + pred_len ?self 0"
    by (simp add: example_estimator_def)
  have a6: "custom_dataset_train ?self = None"
    by (simp add: example_estimator_def)
  have ok: "instantiate_criterion py_repr (criterions ?self) (MSELoss ?self) (criterion ?self)
              (criterion_kwargs ?self) = Inr ''MSE''
            \<and> instantiate_optimizer py_repr (optimizers ?self) (Adam ?self) 0 (lr ?self)
              (optimizer ?self) (optimizer_kwargs ?self) = Inr (''Adam'', 1)"
    by (simp add: example_estimator_def instantiate_criterion_def instantiate_optimizer_def)
  note all = fit_too_short [OF a1 a2 a3 a4 a5 a6, of "\<lambda>e. []" "''MSE''" "(''Adam'', 1)"]
  note zero = all [THEN conjunct1]
  note refused = all [THEN conjunct2, THEN conjunct2, THEN mp, OF ok]
  from zero refused show ?thesis
    by (simp add: example_estimator_def)
qed

section \<open>The order of the batches at prediction\<close>

text \<open>
  Claim C6, evaluated on a panel of two instances of one observation each, with a
  network of seq_len 1 that returns its input window. The loader of the test split
  shuffles; both \<open>[0, 1]\<close> and \<open>[1, 0]\<close> are orders the sampler can draw; the two
  predictions carry the same row index and different values.
\<close>

theorem predict_depends_on_drawn_order:
  "(case build_dataloader (example_estimator 1 0) 0
           \<lparr> df_index = MultiIndex [(1::nat, 100::int), (2, 100)],
             df_index_names = [''id'', ''time''], df_columns = [''v''],
             df_values = [[10], [20::int]] \<rparr> ''test'' of
      Inl e \<Rightarrow> None
    | Inr dataloader \<Rightarrow> Some (dl_shuffle dataloader, md_len (dl_dataset dataloader)))
     = Some (True, 2)
   \<and> sampler_draw 2 [0, 1] \<and> sampler_draw 2 [1, 0]
   \<and> (case predict (example_estimator 1 0) 0
           \<lparr> df_index = MultiIndex [(1::nat, 100::int), (2, 100)],
             df_index_names = [''id'', ''time''], df_columns = [''v''],
             df_values = [[10], [20::int]] \<rparr> [1] [0, 1] of
      Inl e \<Rightarrow> None
    | Inr pred \<Rightarrow> Some (df_index pred, df_values pred))
     = Some (MultiIndex [(1, 101), (2, 101)], [[10], [20]])
   \<and> (case predict (example_estimator 1 0) 0
           \<lparr> df_index = MultiIndex [(1::nat, 100::int), (2, 100)],
             df_index_names = [''id'', ''time''], df_columns = [''v''],
             df_values = [[10], [20::int]] \<rparr> [1] [1, 0] of
      Inl e \<Rightarrow> None
    | Inr pred \<Rightarrow> Some (df_index pred, df_values pred))
     = Some (MultiIndex [(1, 101), (2, 101)], [[20], [10]])"
  by code_simp

end
